theory Spec2Isabelle
  imports Complex_Main "HOL-Library.AList"
begin

section \<open>Python values, errors and containers\<close>

text \<open>
  The exceptions the embedded code can raise.  A raise is the value \<open>Inl e\<close>, a normal
  return is \<open>Inr v\<close>.  None of the five classes is a subclass of another one, so an
  \<open>except C\<close> clause catches exactly the instances of \<open>C\<close>.
\<close>

datatype py_error = KeyError | RuntimeError | IndexError | ZeroDivisionError | AttributeError

definition and_then :: "py_error + 'a \<Rightarrow> ('a \<Rightarrow> py_error + 'b) \<Rightarrow> py_error + 'b" where
  "and_then r f = (case r of Inl e \<Rightarrow> Inl e | Inr v \<Rightarrow> f v)"

fun fold_err :: "('a \<Rightarrow> 's \<Rightarrow> py_error + 's) \<Rightarrow> 'a list \<Rightarrow> 's \<Rightarrow> py_error + 's" where
  "fold_err f [] st = Inr st"
| "fold_err f (x # xs) st = and_then (f x st) (fold_err f xs)"

fun map_err :: "('a \<Rightarrow> py_error + 'b) \<Rightarrow> 'a list \<Rightarrow> py_error + 'b list" where
  "map_err f [] = Inr []"
| "map_err f (x # xs) =
     and_then (f x) (\<lambda>y. and_then (map_err f xs) (\<lambda>ys. Inr (y # ys)))"

text \<open>\<^verbatim>\<open>xs[i]\<close> for an index produced by \<^verbatim>\<open>range\<close> (never negative).\<close>

definition py_index :: "'a list \<Rightarrow> nat \<Rightarrow> py_error + 'a" where
  "py_index xs i = (if i < length xs then Inr (xs ! i) else Inl IndexError)"

text \<open>\<^verbatim>\<open>xs[:n]\<close>: a negative stop counts from the end, a stop past the end is clipped.\<close>

definition py_slice_to :: "'a list \<Rightarrow> int \<Rightarrow> 'a list" where
  "py_slice_to xs n =
     (if n < 0 then take (nat (int (length xs) + n)) xs else take (nat n) xs)"

text \<open>\<^verbatim>\<open>sub in s\<close> on strings.\<close>

fun starts_with :: "string \<Rightarrow> string \<Rightarrow> bool" where
  "starts_with [] s = True"
| "starts_with (c # cs) [] = False"
| "starts_with (c # cs) (d # ds) = (c = d \<and> starts_with cs ds)"

fun str_contains :: "string \<Rightarrow> string \<Rightarrow> bool" where
  "str_contains sub [] = (sub = [])"
| "str_contains sub (d # ds) = (starts_with sub (d # ds) \<or> str_contains sub ds)"

text \<open>
  A \<^verbatim>\<open>dict\<close> is an association list with distinct keys in insertion order:
  \<^verbatim>\<open>d[k] = v\<close> is \<^const>\<open>AList.update\<close> (in place for an old key, at the end for a new one),
  \<^verbatim>\<open>d[k]\<close> is \<^const>\<open>map_of\<close>, raising \<^verbatim>\<open>KeyError\<close> on \<open>None\<close>.
  \<^verbatim>\<open>defaultdict(lambda: [])[name].append(v)\<close>:
\<close>

definition dd_append :: "('k \<times> 'v list) list \<Rightarrow> 'k \<Rightarrow> 'v \<Rightarrow> ('k \<times> 'v list) list" where
  "dd_append wd name v =
     (case map_of wd name of
        None \<Rightarrow> wd @ [(name, [v])]
      | Some vs \<Rightarrow> AList.update name (vs @ [v]) wd)"

definition dict_get :: "('k \<times> 'v) list \<Rightarrow> 'k \<Rightarrow> py_error + 'v" where
  "dict_get d k = (case map_of d k of None \<Rightarrow> Inl KeyError | Some v \<Rightarrow> Inr v)"

text \<open>\<^verbatim>\<open>config.get(key, default)\<close> on an option that may be absent.\<close>

definition config_get :: "'a option \<Rightarrow> 'a \<Rightarrow> 'a" where
  "config_get v d = (case v of None \<Rightarrow> d | Some x \<Rightarrow> x)"


section \<open>The impression evaluation loop (\<^verbatim>\<open>MindRSTrainer._valid_epoch\<close>)\<close>

text \<open>The options \<^verbatim>\<open>_valid_epoch\<close> reads from the configuration; \<open>None\<close> is an absent key.\<close>

record config =
  valid_method :: "string option"
  topic_variant :: "string option"
  return_weight :: "bool option"
  entropy_constraint :: "bool option"
  saved_weight_num :: "int option"

text \<open>
  A collated batch: one row per impression, rows padded to a common length.  The element
  types of labels (\<open>'l\<close>), prediction scores (\<open>'p\<close>), metric values (\<open>'r\<close>) and weight
  tensors (\<open>'w\<close>) stay abstract: the loop only indexes and slices them.
\<close>

record 'l batch =
  label :: "'l list list"
  candidate_length :: "int list"
  history_length :: "int list"
  impression_index :: "int list"
  candidate_index :: "int list list"
  history_index :: "int list list"

text \<open>
  The model's output dict: \<^verbatim>\<open>out_dict["pred"]\<close> and the other items in insertion order
  (the name \<^verbatim>\<open>pred\<close> does not contain \<^verbatim>\<open>weight\<close>, so the items loop skips it).
\<close>

record ('p, 'w) out_dict =
  pred :: "'p list list"
  items :: "(string \<times> 'w list list) list"

text \<open>The values appended to the fields of \<^verbatim>\<open>weight_dict\<close>.\<close>

datatype ('l, 'p, 'r, 'w) saved =
    SIndex int
  | SResults "(string \<times> 'r) list"
  | SLabel "'l list"
  | SIndices "int list"
  | SPred "'p list"
  | SWeight "'w list"

type_synonym 'r result_dict = "(int \<times> (string \<times> 'r) list) list"
type_synonym ('l, 'p, 'r, 'w) weight_dict = "(string \<times> ('l, 'p, 'r, 'w) saved list) list"
type_synonym ('l, 'p, 'r) metric_funcs = "(string \<times> ('l list \<Rightarrow> 'p list \<Rightarrow> 'r)) list"

subsection \<open>Lines 103--111: the news-embedding cache\<close>

text \<open>
  \<^verbatim>\<open>KeyError or RuntimeError\<close> is an expression: \<^verbatim>\<open>or\<close> returns its first operand when
  that is truthy, and every class object is truthy.
\<close>

definition class_truthy :: "py_error \<Rightarrow> bool" where
  "class_truthy c = True"

definition py_or :: "py_error \<Rightarrow> py_error \<Rightarrow> py_error" where
  "py_or a b = (if class_truthy a then a else b)"

definition fast_evaluation :: "config \<Rightarrow> bool" where
  "fast_evaluation cfg \<longleftrightarrow>
     config_get (valid_method cfg) ''fast_evaluation'' = ''fast_evaluation''
     \<and> \<not> config_get (return_weight cfg) False
     \<and> \<not> config_get (entropy_constraint cfg) False
     \<and> \<not> config_get (topic_variant cfg) ''base'' = ''variational_topic''"

text \<open>
  \<open>get_news_embeds\<close> is the outcome of the call \<^verbatim>\<open>get_news_embeds(model, news_loader, ...)\<close>,
  which is made only on the first branch.  The result is the value of \<^verbatim>\<open>news_embeds\<close>.
\<close>

definition cache_news_embeds :: "config \<Rightarrow> py_error + 'e \<Rightarrow> py_error + 'e option" where
  "cache_news_embeds cfg get_news_embeds =
     (if fast_evaluation cfg then
        (case get_news_embeds of
           Inr embeds \<Rightarrow> Inr (Some embeds)
         | Inl e \<Rightarrow> if e = py_or KeyError RuntimeError then Inr None else Inl e)
      else Inr None)"

subsection \<open>Lines 122--141: one impression row\<close>

definition row_inputs :: "'l batch \<Rightarrow> 'p list list \<Rightarrow> nat \<Rightarrow> py_error + ('l list \<times> 'p list)" where
  "row_inputs b prd i =
     and_then (py_index (label b) i) (\<lambda>l.
     and_then (py_index (candidate_length b) i) (\<lambda>n.
     and_then (py_index prd i) (\<lambda>p.
       Inr (py_slice_to l n, py_slice_to p n))))"

text \<open>The dict comprehension over \<^verbatim>\<open>self.metric_funcs\<close>, given the two argument arrays.\<close>

definition metric_dict :: "('l, 'p, 'r) metric_funcs \<Rightarrow> 'l list \<Rightarrow> 'p list \<Rightarrow> (string \<times> 'r) list" where
  "metric_dict ms l p = fold (\<lambda>(name, m) d. AList.update name (m l p) d) ms []"

text \<open>With no metric registered the comprehension evaluates none of the subscripts.\<close>

definition row_results ::
  "('l, 'p, 'r) metric_funcs \<Rightarrow> 'l batch \<Rightarrow> 'p list list \<Rightarrow> nat \<Rightarrow> py_error + (string \<times> 'r) list" where
  "row_results ms b prd i =
     (if ms = [] then Inr []
      else and_then (row_inputs b prd i) (\<lambda>(l, p). Inr (metric_dict ms l p)))"

fun collect_weights ::
  "(string \<times> 'w list list) list \<Rightarrow> int \<Rightarrow> int \<Rightarrow> nat \<Rightarrow> ('l, 'p, 'r, 'w) weight_dict
     \<Rightarrow> py_error + ('l, 'p, 'r, 'w) weight_dict" where
  "collect_weights [] cl hl i wd = Inr wd"
| "collect_weights ((name, weight) # rest) cl hl i wd =
     (if str_contains ''weight'' name then
        and_then (py_index weight i) (\<lambda>w.
          collect_weights rest cl hl i
            (dd_append wd name
               (SWeight (py_slice_to w (if str_contains ''candidate'' name then cl else hl)))))
      else collect_weights rest cl hl i wd)"

definition save_items ::
  "'l batch \<Rightarrow> ('p, 'w) out_dict \<Rightarrow> nat \<Rightarrow> int \<Rightarrow> (string \<times> 'r) list \<Rightarrow> ('l, 'p, 'r, 'w) weight_dict
     \<Rightarrow> py_error + ('l, 'p, 'r, 'w) weight_dict" where
  "save_items b out i index res wd =
     and_then (py_index (label b) i) (\<lambda>l.
     and_then (py_index (candidate_length b) i) (\<lambda>cl.
     and_then (py_index (candidate_index b) i) (\<lambda>ci.
     and_then (py_index (history_index b) i) (\<lambda>hi.
     and_then (py_index (history_length b) i) (\<lambda>hl.
     and_then (py_index (pred out) i) (\<lambda>p.
       collect_weights (items out) cl hl i
         (fold (\<lambda>(name, v) d. dd_append d name v)
            [(''impression_index'', SIndex index),
             (''results'', SResults res),
             (''label'', SLabel (py_slice_to l cl)),
             (''candidate_index'', SIndices (py_slice_to ci cl)),
             (''history_index'', SIndices (py_slice_to hi hl)),
             (''pred_score'', SPred (py_slice_to p cl))] wd)))))))"

definition process_row ::
  "config \<Rightarrow> ('l, 'p, 'r) metric_funcs \<Rightarrow> 'l batch \<Rightarrow> ('p, 'w) out_dict \<Rightarrow> nat
     \<Rightarrow> 'r result_dict \<times> ('l, 'p, 'r, 'w) weight_dict
     \<Rightarrow> py_error + ('r result_dict \<times> ('l, 'p, 'r, 'w) weight_dict)" where
  "process_row cfg ms b out i st =
     (case st of (result_dict, weight_dict) \<Rightarrow>
        and_then (py_index (impression_index b) i) (\<lambda>index.
        and_then (row_results ms b (pred out) i) (\<lambda>res.
          if config_get (return_weight cfg) False then
            and_then (save_items b out i index res weight_dict) (\<lambda>wd.
              Inr (AList.update index res result_dict, wd))
          else Inr (AList.update index res result_dict, weight_dict))))"

subsection \<open>Lines 115--143: the loop over the validation batches\<close>

definition process_batch ::
  "config \<Rightarrow> ('l, 'p, 'r) metric_funcs \<Rightarrow> ('l batch \<Rightarrow> ('p, 'w) out_dict) \<Rightarrow> 'l batch
     \<Rightarrow> 'r result_dict \<times> ('l, 'p, 'r, 'w) weight_dict
     \<Rightarrow> py_error + ('r result_dict \<times> ('l, 'p, 'r, 'w) weight_dict)" where
  "process_batch cfg ms model b st =
     fold_err (process_row cfg ms b (model b)) [0 ..< length (label b)] st"

text \<open>\<open>vi\<close> is the counter of \<^verbatim>\<open>enumerate(valid_loader)\<close>; the \<^verbatim>\<open>break\<close> ends the loop.\<close>

fun valid_loop ::
  "config \<Rightarrow> ('l, 'p, 'r) metric_funcs \<Rightarrow> ('l batch \<Rightarrow> ('p, 'w) out_dict) \<Rightarrow> nat \<Rightarrow> 'l batch list
     \<Rightarrow> 'r result_dict \<times> ('l, 'p, 'r, 'w) weight_dict
     \<Rightarrow> py_error + ('r result_dict \<times> ('l, 'p, 'r, 'w) weight_dict)" where
  "valid_loop cfg ms model vi [] st = Inr st"
| "valid_loop cfg ms model vi (b # bs) st =
     and_then (process_batch cfg ms model b st) (\<lambda>st'.
       if int vi \<ge> config_get (saved_weight_num cfg) 250 \<and> config_get (return_weight cfg) False
       then Inr st'
       else valid_loop cfg ms model (Suc vi) bs st')"

text \<open>The same batches with no \<^verbatim>\<open>break\<close>: what running every given batch produces.\<close>

definition run_batches ::
  "config \<Rightarrow> ('l, 'p, 'r) metric_funcs \<Rightarrow> ('l batch \<Rightarrow> ('p, 'w) out_dict) \<Rightarrow> 'l batch list
     \<Rightarrow> 'r result_dict \<times> ('l, 'p, 'r, 'w) weight_dict
     \<Rightarrow> py_error + ('r result_dict \<times> ('l, 'p, 'r, 'w) weight_dict)" where
  "run_batches cfg ms model bs st = fold_err (process_batch cfg ms model) bs st"

subsection \<open>Lines 150--159: merging and saving the weight dump\<close>

text \<open>
  \<^verbatim>\<open>for key in weight_dict.keys(): weight_dict[key].extend(old_weights[key])\<close>;
  \<^verbatim>\<open>old_weights\<close> is a plain dict, so a key it lacks raises \<^verbatim>\<open>KeyError\<close>.
\<close>

fun extend_with_old ::
  "(string \<times> 'v list) list \<Rightarrow> (string \<times> 'v list) list \<Rightarrow> py_error + (string \<times> 'v list) list" where
  "extend_with_old [] old_weights = Inr []"
| "extend_with_old ((key, vs) # rest) old_weights =
     and_then (dict_get old_weights key) (\<lambda>old.
     and_then (extend_with_old rest old_weights) (\<lambda>rest'.
       Inr ((key, vs @ old) # rest')))"

text \<open>
  \<open>file\<close> is the content of \<^verbatim>\<open>{model_dir}/weight/{head_num}.pt\<close> (\<open>None\<close>: no such file);
  the result is the content after the step.
\<close>

definition save_weight_dump ::
  "config \<Rightarrow> bool \<Rightarrow> (string \<times> 'v list) list \<Rightarrow> (string \<times> 'v list) list option
     \<Rightarrow> py_error + (string \<times> 'v list) list option" where
  "save_weight_dump cfg is_main_process weight_dict file =
     (if config_get (return_weight cfg) False \<and> is_main_process then
        (case file of
           Some old_weights \<Rightarrow>
             and_then (extend_with_old weight_dict old_weights) (\<lambda>wd. Inr (Some wd))
         | None \<Rightarrow> Inr (Some weight_dict))
      else Inr file)"

subsection \<open>\<^verbatim>\<open>_valid_epoch\<close>\<close>

text \<open>
  \<open>make_loader\<close> stands for \<^verbatim>\<open>ImpressionDataset\<close> and \<^verbatim>\<open>DataLoader\<close> (the batches, given
  \<^verbatim>\<open>news_embeds\<close>), \<open>summarise\<close> for lines 144--148 (gathering and averaging the result
  dict).  The result is the evaluation log and the content of the dump file.
\<close>

definition valid_epoch ::
  "config \<Rightarrow> bool \<Rightarrow> ('l, 'p, 'r) metric_funcs \<Rightarrow> ('l batch \<Rightarrow> ('p, 'w) out_dict)
     \<Rightarrow> py_error + 'e \<Rightarrow> ('e option \<Rightarrow> 'l batch list) \<Rightarrow> ('r result_dict \<Rightarrow> 'log)
     \<Rightarrow> ('l, 'p, 'r, 'w) weight_dict option
     \<Rightarrow> py_error + ('log \<times> ('l, 'p, 'r, 'w) weight_dict option)" where
  "valid_epoch cfg is_main_process ms model get_news_embeds make_loader summarise file =
     and_then (cache_news_embeds cfg get_news_embeds) (\<lambda>news_embeds.
     and_then (valid_loop cfg ms model 0 (make_loader news_embeds) ([], [])) (\<lambda>(result_dict, weight_dict).
     and_then (save_weight_dump cfg is_main_process weight_dict file) (\<lambda>file'.
       Inr (summarise result_dict, file'))))"

section \<open>The training epoch loop (\<^verbatim>\<open>MindRSTrainer._train_epoch\<close>)\<close>

subsection \<open>Python floats\<close>

text \<open>
  A Python \<^verbatim>\<open>float\<close> is an IEEE 754 double: \<open>Double m e\<close> stands for \<open>m * 2 ^ e\<close> with
  \<open>\<bar>m\<bar> \<le> 2 ^ 53\<close>.  Results are rounded to 53 bits, ties to even.  The exponent range is
  not modelled: no overflow to infinity and no subnormal numbers, which an epoch length
  times a fraction of an epoch never reaches.
\<close>

datatype double = Double (mantissa: int) (exponent: int)

fun bitlen :: "nat \<Rightarrow> nat" where
  "bitlen n = (if n = 0 then 0 else Suc (bitlen (n div 2)))"

declare bitlen.simps [simp del]

definition round_half_even :: "int \<Rightarrow> int \<Rightarrow> int" where
  "round_half_even m d =
     (let q = m div d; r = m mod d
      in if 2 * r < d then q else if 2 * r > d then q + 1 else if even q then q else q + 1)"

definition round53 :: "int \<Rightarrow> int \<Rightarrow> double" where
  "round53 m e =
     (let k = int (bitlen (nat \<bar>m\<bar>)) - 53
      in if k \<le> 0 then Double m e else Double (round_half_even m (2 ^ nat k)) (e + k))"

text \<open>\<^verbatim>\<open>float(n)\<close>, the conversion Python applies to the \<^verbatim>\<open>int\<close> operand of \<^verbatim>\<open>n * x\<close>.\<close>

definition float_of_int :: "int \<Rightarrow> double" where
  "float_of_int n = round53 n 0"

definition float_mul :: "double \<Rightarrow> double \<Rightarrow> double" where
  "float_mul a b = round53 (mantissa a * mantissa b) (exponent a + exponent b)"

definition math_ceil :: "double \<Rightarrow> int" where
  "math_ceil x =
     (if 0 \<le> exponent x then mantissa x * 2 ^ nat (exponent x)
      else - ((- mantissa x) div 2 ^ nat (- exponent x)))"

definition double_value :: "double \<Rightarrow> rat" where
  "double_value x =
     (if 0 \<le> exponent x then of_int (mantissa x) * 2 ^ nat (exponent x)
      else of_int (mantissa x) / 2 ^ nat (- exponent x))"

text \<open>
  The literal \<^verbatim>\<open>0.2\<close>: \<^verbatim>\<open>(0.2).as_integer_ratio()\<close> is
  \<^verbatim>\<open>(3602879701896397, 18014398509481984)\<close>, and the denominator is \<open>2 ^ 54\<close>.
\<close>

definition float_0_2 :: double where
  "float_0_2 = Double 3602879701896397 (- 54)"

subsection \<open>The trainer and one training step\<close>

text \<open>
  The attributes of the trainer that \<^verbatim>\<open>_train_epoch\<close> reads (\<open>self_x\<close> is \<^verbatim>\<open>self.x\<close>).
  \<^verbatim>\<open>self.beta\<close> occurs only in the line
  \<^verbatim>\<open># loss += self.beta * output["kl_divergence"]\<close>, which is a comment.
  \<open>self_lr_scheduler\<close> tells whether \<^verbatim>\<open>self.lr_scheduler\<close> is not \<^verbatim>\<open>None\<close>.
  Loss values have an abstract type \<open>'a\<close> with \<open>+\<close> and \<open>*\<close>.
\<close>

record 'a trainer =
  self_valid_interval :: double
  self_len_epoch :: int
  self_log_step :: int
  self_entropy_constraint :: bool
  self_alpha :: 'a
  self_beta :: 'a
  self_topic_variant :: string
  self_lr_scheduler :: bool

text \<open>
  What one batch contributes: the value of \<^verbatim>\<open>self.criterion(output["pred"], label)\<close> and the
  scalar entries of the model's \<^verbatim>\<open>output\<close> dict.
\<close>

record 'a step_data =
  criterion_value :: 'a
  model_output :: "(string \<times> 'a) list"

text \<open>
  Lines 60--67: the loss that is handed to \<^verbatim>\<open>self.accelerator.backward\<close>.  In the
  \<^verbatim>\<open>variational_topic\<close> branch \<^verbatim>\<open>output['kl_divergence']\<close> is read for the progress-bar
  text only.
\<close>

definition batch_loss :: "('a :: {plus, times}) trainer \<Rightarrow> 'a step_data \<Rightarrow> py_error + 'a" where
  "batch_loss t d =
     and_then
       (if self_entropy_constraint t
        then and_then (dict_get (model_output d) ''entropy'')
               (\<lambda>entropy. Inr (criterion_value d + self_alpha t * entropy))
        else Inr (criterion_value d)) (\<lambda>loss.
     and_then
       (if self_topic_variant t = ''variational_topic''
        then and_then (dict_get (model_output d) ''kl_divergence'') (\<lambda>kl. Inr ())
        else Inr ()) (\<lambda>_. Inr loss))"

text \<open>The effects of an epoch on the optimizer, the metric tracker and the validation.\<close>

datatype 'a event =
    Backward 'a
  | OptimizerStep
  | SetStep int
  | UpdateLoss 'a
  | Validation int int bool
  | SchedulerStep

fun is_validation :: "'a event \<Rightarrow> bool" where
  "is_validation (Validation epoch batch_idx do_monitor) = True"
| "is_validation _ = False"

subsection \<open>Lines 54--81: the loop and the end of the epoch\<close>

text \<open>
  \<open>len\<close> is \<^verbatim>\<open>len(self.train_loader)\<close>, \<open>batch_idx\<close> the counter of \<^verbatim>\<open>enumerate\<close>, \<open>tr\<close>
  the effects so far.  Both \<^verbatim>\<open>%\<close> raise \<^verbatim>\<open>ZeroDivisionError\<close> on a zero divisor; Python's
  \<^verbatim>\<open>%\<close> and \<open>mod\<close> on \<open>int\<close> agree (the sign of the divisor).
\<close>

fun train_loop ::
  "('a :: {plus, times}) trainer \<Rightarrow> int \<Rightarrow> nat \<Rightarrow> nat \<Rightarrow> 'a step_data list \<Rightarrow> 'a event list
     \<Rightarrow> py_error + 'a event list" where
  "train_loop t epoch len batch_idx [] tr = Inr tr"
| "train_loop t epoch len batch_idx (d # ds) tr =
     and_then (batch_loss t d) (\<lambda>loss.
       let tr1 = tr @ [Backward loss, OptimizerStep,
                       SetStep ((epoch - 1) * self_len_epoch t + int batch_idx), UpdateLoss loss]
       in if self_log_step t = 0 then Inl ZeroDivisionError
          else if int batch_idx = self_len_epoch t then Inr tr1
          else
            let k = math_ceil (float_mul (float_of_int (int len)) (self_valid_interval t))
            in if k = 0 then Inl ZeroDivisionError
               else if (int batch_idx + 1) mod k = 0 \<and> batch_idx + 1 < len
               then train_loop t epoch len (Suc batch_idx) ds
                      (tr1 @ [Validation epoch (int batch_idx) True])
               else train_loop t epoch len (Suc batch_idx) ds tr1)"

definition train_epoch ::
  "('a :: {plus, times}) trainer \<Rightarrow> int \<Rightarrow> 'a step_data list \<Rightarrow> py_error + 'a event list" where
  "train_epoch t epoch train_loader =
     and_then (train_loop t epoch (length train_loader) 0 train_loader []) (\<lambda>tr.
       Inr ((if self_lr_scheduler t then tr @ [SchedulerStep] else tr)
            @ [Validation epoch (int (length train_loader)) False]))"

section \<open>The topic-attention model (\<^verbatim>\<open>BATMRSModel\<close>)\<close>

subsection \<open>Tensors and the torch operations used\<close>

text \<open>
  Tensors are nested lists, the arithmetic is exact (\<open>real\<close>): rounding of the
  floating-point operations is not modelled.  A shape mismatch that torch reports is a
  \<^verbatim>\<open>RuntimeError\<close>; a dimension of size 1 broadcasts.  Nested lists cannot record the width
  of a matrix without rows, so tensors with an empty dimension are outside the model.
\<close>

type_synonym vec = "real list"
type_synonym mat = "vec list"
type_synonym tensor3 = "mat list"

datatype tensor = Mat mat | Ten3 tensor3

text \<open>\<^verbatim>\<open>t.transpose(1, 2)\<close> on a tensor of rank 3.\<close>

definition transpose12 :: "tensor3 \<Rightarrow> tensor3" where
  "transpose12 t = map transpose t"

text \<open>Pairing along one dimension, either operand broadcasting from size 1.\<close>

definition bzip :: "'a list \<Rightarrow> 'b list \<Rightarrow> py_error + ('a \<times> 'b) list" where
  "bzip xs ms =
     (if length ms = length xs then Inr (zip xs ms)
      else if length ms = 1 then Inr (map (\<lambda>x. (x, hd ms)) xs)
      else if length xs = 1 then Inr (map (\<lambda>m. (hd xs, m)) ms)
      else Inl RuntimeError)"

text \<open>\<^verbatim>\<open>t.masked_fill(mask, c)\<close>, dimension by dimension (tensor and mask are broadcast
  against each other).\<close>

definition masked_fill_row :: "vec \<Rightarrow> bool list \<Rightarrow> real \<Rightarrow> py_error + vec" where
  "masked_fill_row x mk c =
     and_then (bzip x mk) (\<lambda>ps. Inr (map (\<lambda>(v, b). if b then c else v) ps))"

definition masked_fill_mat :: "mat \<Rightarrow> bool list list \<Rightarrow> real \<Rightarrow> py_error + mat" where
  "masked_fill_mat t mk c =
     and_then (bzip t mk) (map_err (\<lambda>(x, r). masked_fill_row x r c))"

definition masked_fill :: "tensor3 \<Rightarrow> bool list list list \<Rightarrow> real \<Rightarrow> py_error + tensor3" where
  "masked_fill t mk c =
     and_then (bzip t mk) (map_err (\<lambda>(x, r). masked_fill_mat x r c))"

text \<open>
  \<^verbatim>\<open>news_mask.expand(head_num, n, -1).transpose(0, 1) == 0\<close> for a mask of rank 2:
  its first dimension must be \<open>n\<close> or 1, the last one is kept.
\<close>

definition expand_mask :: "nat \<Rightarrow> nat \<Rightarrow> int list list \<Rightarrow> py_error + bool list list list" where
  "expand_mask h n news_mask =
     (if length news_mask = n
      then Inr (map (\<lambda>row. replicate h (map (\<lambda>v. v = 0) row)) news_mask)
      else if length news_mask = 1
      then Inr (replicate n (replicate h (map (\<lambda>v. v = 0) (hd news_mask))))
      else Inl RuntimeError)"

text \<open>\<^verbatim>\<open>torch.softmax(t, dim=-1)\<close>.\<close>

definition softmax :: "vec \<Rightarrow> vec" where
  "softmax xs = map (\<lambda>x. exp x / sum_list (map exp xs)) xs"

definition softmax_last :: "tensor3 \<Rightarrow> tensor3" where
  "softmax_last t = map (map softmax) t"

text \<open>\<^verbatim>\<open>torch.matmul\<close> on two tensors of rank 3: a batch of matrix products.\<close>

definition mat_mul :: "mat \<Rightarrow> mat \<Rightarrow> py_error + mat" where
  "mat_mul a b =
     (if list_all (\<lambda>row. length row = length b) a
      then Inr (map (\<lambda>row. map (\<lambda>col. sum_list (map2 (*) row col)) (transpose b)) a)
      else Inl RuntimeError)"

definition matmul :: "tensor3 \<Rightarrow> tensor3 \<Rightarrow> py_error + tensor3" where
  "matmul a b =
     (if length a = length b then map_err (\<lambda>(x, y). mat_mul x y) (zip a b)
      else if length b = 1 then map_err (\<lambda>x. mat_mul x (hd b)) a
      else if length a = 1 then map_err (\<lambda>y. mat_mul (hd a) y) b
      else Inl RuntimeError)"

text \<open>
  \<^verbatim>\<open>nn.Linear\<close> (weight \<open>w\<close>, one row per output feature, and bias \<open>bias\<close>) and
  \<^verbatim>\<open>nn.Sequential(nn.Linear, nn.Tanh(), nn.Linear)\<close>, applied along the last dimension
  of an input of the matching width.
\<close>

definition nn_linear :: "mat \<Rightarrow> vec \<Rightarrow> tensor3 \<Rightarrow> tensor3" where
  "nn_linear w bias t =
     map (map (\<lambda>x. map2 (\<lambda>row b. sum_list (map2 (*) row x) + b) w bias)) t"

definition sequential_linear_tanh_linear :: "mat \<Rightarrow> vec \<Rightarrow> mat \<Rightarrow> vec \<Rightarrow> tensor3 \<Rightarrow> tensor3" where
  "sequential_linear_tanh_linear w1 b1 w2 b2 t =
     nn_linear w2 b2 (map (map (map tanh)) (nn_linear w1 b1 t))"

subsection \<open>The model and its input\<close>

text \<open>
  The layers a constructed model holds.  \<^verbatim>\<open>self.user_encode_layer\<close> is an \<^verbatim>\<open>nn.GRU\<close>
  (returning a pair) for the variants \<^verbatim>\<open>base\<close> and \<^verbatim>\<open>base_att\<close> and an \<^verbatim>\<open>nn.Sequential\<close>
  for \<^verbatim>\<open>bi_batm\<close>: \<open>user_gru\<close> and \<open>user_topic_layer\<close>.  For any other variant name
  \<^verbatim>\<open>__init__\<close> creates neither \<^verbatim>\<open>topic_layer\<close> nor \<^verbatim>\<open>user_encode_layer\<close>.  The embedding
  and the additive-attention layers come from the base class \<^verbatim>\<open>MindNRSBase\<close>; the
  attention layers return the pooled vectors and the attention weights.
\<close>

record batm_model =
  variant_name :: string
  head_num :: nat
  embedding_layer :: "int list list \<Rightarrow> tensor3"
  dropouts :: "tensor3 \<Rightarrow> tensor3"
  topic_layer :: "tensor3 \<Rightarrow> tensor3"
  final :: "tensor3 \<Rightarrow> tensor3"
  user_gru :: "tensor3 \<Rightarrow> tensor3 \<times> tensor3"
  user_topic_layer :: "tensor3 \<Rightarrow> tensor3"
  user_final :: "tensor3 \<Rightarrow> tensor3"
  user_att_layer :: "tensor3 \<Rightarrow> mat \<times> mat"
  news_att_layer :: "tensor3 \<Rightarrow> mat \<times> mat"

text \<open>The dict \<^verbatim>\<open>input_feat\<close>; \<open>None\<close> is an absent key.\<close>

record input_feat =
  news :: "int list list option"
  news_mask :: "int list list option"
  history_news :: "tensor3 option"

definition feat_get :: "'a option \<Rightarrow> py_error + 'a" where
  "feat_get v = (case v of None \<Rightarrow> Inl KeyError | Some x \<Rightarrow> Inr x)"

definition has_topic_layer :: "batm_model \<Rightarrow> bool" where
  "has_topic_layer m \<longleftrightarrow>
     variant_name m = ''base'' \<or> variant_name m = ''base_att'' \<or> variant_name m = ''bi_batm''"

subsection \<open>Lines 26--33: \<^verbatim>\<open>extract_topic\<close>\<close>

text \<open>The constant \<^verbatim>\<open>-1e9\<close>.\<close>

definition neg_1e9 :: real where
  "neg_1e9 = - 1000000000"

definition topic_logits :: "batm_model \<Rightarrow> int list list \<Rightarrow> tensor3" where
  "topic_logits m tokens = transpose12 (topic_layer m (dropouts m (embedding_layer m tokens)))"

definition extract_topic :: "batm_model \<Rightarrow> input_feat \<Rightarrow> py_error + (tensor3 \<times> tensor3)" where
  "extract_topic m feat =
     and_then (feat_get (news feat)) (\<lambda>tokens.
       let embedding = dropouts m (embedding_layer m tokens)
       in if \<not> has_topic_layer m then Inl AttributeError
          else
            and_then (feat_get (news_mask feat)) (\<lambda>nm.
            and_then (expand_mask (head_num m) (length embedding) nm) (\<lambda>mask.
            and_then (masked_fill (topic_logits m tokens) mask neg_1e9) (\<lambda>filled.
            and_then (matmul (softmax_last filled) embedding) (\<lambda>topic_vec.
              Inr (final m topic_vec, softmax_last filled))))))"

subsection \<open>Lines 42--55: \<^verbatim>\<open>user_encoder\<close>\<close>

text \<open>The local \<^verbatim>\<open>user_weight\<close> of the \<^verbatim>\<open>bi_batm\<close> branch.\<close>

definition user_weight :: "batm_model \<Rightarrow> tensor3 \<Rightarrow> tensor3" where
  "user_weight m y = transpose12 (user_topic_layer m y)"

definition user_encoder :: "batm_model \<Rightarrow> input_feat \<Rightarrow> py_error + tensor" where
  "user_encoder m feat =
     and_then (feat_get (history_news feat)) (\<lambda>y.
       if variant_name m = ''base'' then
         Inr (Mat (fst (user_att_layer m (fst (user_gru m y)))))
       else if variant_name m = ''bi_batm'' then
         and_then (matmul (user_weight m y) y) (\<lambda>product.
           Inr (Mat (fst (user_att_layer m (user_final m product)))))
       else if variant_name m = ''base_att'' then
         Inr (Mat (fst (user_att_layer m y)))
       else Inr (Ten3 y))"

section \<open>Properties of the impression evaluation loop\<close>

subsection \<open>Auxiliary facts\<close>

lemma and_then_Inr_iff:
  "and_then r f = Inr y \<longleftrightarrow> (\<exists>v. r = Inr v \<and> f v = Inr y)"
  by (cases r) (simp_all add: and_then_def)

lemma and_then_simps [simp]:
  "and_then (Inl e) f = Inl e" "and_then (Inr v) f = f v"
  by (simp_all add: and_then_def)


lemma length_py_slice_to:
  "0 \<le> n \<Longrightarrow> n \<le> int (length xs) \<Longrightarrow> length (py_slice_to xs n) = nat n"
  by (simp add: py_slice_to_def)







subsection \<open>Truncation before the metrics\<close>



subsection \<open>The evaluation mode\<close>

text \<open>
  Claim C2.  When the embedding computation returns \<open>e\<close>, \<^verbatim>\<open>news_embeds\<close> is the cache \<open>e\<close>
  exactly if \<^verbatim>\<open>valid_method\<close> is \<^verbatim>\<open>fast_evaluation\<close>, \<^verbatim>\<open>return_weight\<close> and
  \<^verbatim>\<open>entropy_constraint\<close> are false and \<^verbatim>\<open>topic_variant\<close> is not \<^verbatim>\<open>variational_topic\<close>
  (absent options taking their defaults).  In every other configuration \<^verbatim>\<open>news_embeds\<close>
  is \<^verbatim>\<open>None\<close>, whatever the embedding computation would have done.
\<close>
theorem fast_mode_iff:
  fixes e :: 'e and outcome :: "py_error + 'e"
  shows
  "(cache_news_embeds cfg (Inr e) = Inr (Some e) \<longleftrightarrow>
      config_get (valid_method cfg) ''fast_evaluation'' = ''fast_evaluation''
      \<and> \<not> config_get (return_weight cfg) False
      \<and> \<not> config_get (entropy_constraint cfg) False
      \<and> config_get (topic_variant cfg) ''base'' \<noteq> ''variational_topic'')
   \<and> (\<not> (config_get (valid_method cfg) ''fast_evaluation'' = ''fast_evaluation''
          \<and> \<not> config_get (return_weight cfg) False
          \<and> \<not> config_get (entropy_constraint cfg) False
          \<and> config_get (topic_variant cfg) ''base'' \<noteq> ''variational_topic'')
        \<longrightarrow> cache_news_embeds cfg outcome = Inr None)"
  by (simp add: cache_news_embeds_def fast_evaluation_def)

text \<open>With weight export switched on the cache is not built; with the defaults it is.\<close>
theorem fast_mode_iff_witness:
  "\<not> (config_get (valid_method \<lparr>valid_method = None, topic_variant = None, return_weight = Some True,
      entropy_constraint = None, saved_weight_num = None\<rparr>) ''fast_evaluation'' = ''fast_evaluation''
      \<and> \<not> config_get (return_weight \<lparr>valid_method = None, topic_variant = None, return_weight = Some True,
      entropy_constraint = None, saved_weight_num = None\<rparr>) False
      \<and> \<not> config_get (entropy_constraint \<lparr>valid_method = None, topic_variant = None, return_weight = Some True,
      entropy_constraint = None, saved_weight_num = None\<rparr>) False
      \<and> config_get (topic_variant \<lparr>valid_method = None, topic_variant = None, return_weight = Some True,
      entropy_constraint = None, saved_weight_num = None\<rparr>) ''base'' \<noteq> ''variational_topic'')
   \<and> cache_news_embeds \<lparr>valid_method = None, topic_variant = None, return_weight = Some True,
      entropy_constraint = None, saved_weight_num = None\<rparr> (Inr (5 :: nat)) = Inr None
   \<and> cache_news_embeds \<lparr>valid_method = None, topic_variant = None, return_weight = None,
      entropy_constraint = None, saved_weight_num = None\<rparr> (Inr (5 :: nat)) = Inr (Some 5)"
  using fast_mode_iff [of "\<lparr>valid_method = None, topic_variant = None, return_weight = Some True,
      entropy_constraint = None, saved_weight_num = None\<rparr>" "5 :: nat" "Inr 5"]
    fast_mode_iff [of "\<lparr>valid_method = None, topic_variant = None, return_weight = None,
      entropy_constraint = None, saved_weight_num = None\<rparr>" "5 :: nat" "Inr 5"]
  by (simp add: config_get_def)

text \<open>
  Claim C3.  With the default configuration the cache is attempted.  A \<^verbatim>\<open>KeyError\<close> from
  the embedding computation is caught and gives \<^verbatim>\<open>news_embeds = None\<close>, but a
  \<^verbatim>\<open>RuntimeError\<close> is not caught: it leaves \<^verbatim>\<open>_valid_epoch\<close>, because the clause
  \<^verbatim>\<open>except KeyError or RuntimeError\<close> names the class \<^verbatim>\<open>KeyError\<close> only.
\<close>
theorem runtime_error_escapes:
  "cache_news_embeds \<lparr>valid_method = None, topic_variant = None, return_weight = None,
      entropy_constraint = None, saved_weight_num = None\<rparr> (Inl RuntimeError :: py_error + nat)
     = Inl RuntimeError
   \<and> cache_news_embeds \<lparr>valid_method = None, topic_variant = None, return_weight = None,
      entropy_constraint = None, saved_weight_num = None\<rparr> (Inl KeyError :: py_error + nat)
     = Inr None
   \<and> valid_epoch \<lparr>valid_method = None, topic_variant = None, return_weight = None,
      entropy_constraint = None, saved_weight_num = None\<rparr> True
      ([] :: (int, int, int) metric_funcs)
      (\<lambda>b. \<lparr>pred = [], items = ([] :: (string \<times> int list list) list)\<rparr>)
      (Inl RuntimeError :: py_error + nat) (\<lambda>e. []) length None
     = Inl RuntimeError"
  by (simp add: valid_epoch_def cache_news_embeds_def fast_evaluation_def config_get_def
        py_or_def class_truthy_def)

subsection \<open>The cap on exported weights\<close>

lemma valid_loop_no_weight:
  "\<not> config_get (return_weight cfg) False \<Longrightarrow>
   valid_loop cfg ms model vi bs st = run_batches cfg ms model bs st"
  unfolding run_batches_def
  by (induction bs arbitrary: vi st) (simp_all add: and_then_def split: sum.splits)

lemma valid_loop_weight:
  "config_get (return_weight cfg) False \<Longrightarrow>
   valid_loop cfg ms model vi bs st =
   run_batches cfg ms model
     (take (nat (max 1 (config_get (saved_weight_num cfg) 250 - int vi + 1))) bs) st"
proof (induction bs arbitrary: vi st)
  case Nil
  then show ?case by (simp add: run_batches_def)
next
  case (Cons b bs)
  let ?n = "config_get (saved_weight_num cfg) 250"
  show ?case
  proof (cases "int vi \<ge> ?n")
    case True
    then have "nat (max 1 (?n - int vi + 1)) = Suc 0" by simp
    then show ?thesis using Cons.prems True
      by (simp add: run_batches_def and_then_def split: sum.splits)
  next
    case False
    then have k: "nat (max 1 (?n - int vi + 1)) = Suc (nat (max 1 (?n - int (Suc vi) + 1)))"
      by simp
    show ?thesis
      using Cons.prems False Cons.IH[OF Cons.prems, of "Suc vi"]
      unfolding k
      by (simp add: run_batches_def and_then_def split: sum.splits)
  qed
qed

text \<open>
  Claim C4, as the code has it.  With weight export enabled the loop runs the batches
  numbered \<open>0\<close> to \<open>saved_weight_num\<close> (at least the first one) and nothing after them:
  neither weights nor metric results are produced for the later batches.  Without weight
  export every batch is run.
\<close>
theorem weight_cap_stops_evaluation:
  "valid_loop cfg ms model 0 bs st =
   run_batches cfg ms model
     (if config_get (return_weight cfg) False
      then take (nat (max 1 (config_get (saved_weight_num cfg) 250 + 1))) bs
      else bs) st"
  using valid_loop_weight [of cfg ms model 0 bs st] valid_loop_no_weight [of cfg ms model 0 bs st]
  by simp

text \<open>
  Claim C4 fails as stated: with \<^verbatim>\<open>return_weight\<close>, \<^verbatim>\<open>saved_weight_num = 1\<close> and three
  batches of two impressions, the loop ends after the second batch.  The impressions 4
  and 5 get no metric result, and four impressions are retained although the cap is 1.
\<close>
theorem weight_cap_counterexample:
  "valid_loop
     \<lparr>valid_method = None, topic_variant = None, return_weight = Some True,
      entropy_constraint = None, saved_weight_num = Some 1\<rparr>
     [(''positives'', \<lambda>l p. sum_list l + int (length p))]
     (\<lambda>b. \<lparr>pred = [[4, 3], [1, 2 :: int]], items = ([] :: (string \<times> int list list) list)\<rparr>)
     0
     [\<lparr>label = [[1, 0], [0, 1 :: int]], candidate_length = [2, 1],
       history_length = [1, 1], impression_index = [0, 1],
       candidate_index = [[11, 12], [13, 0]], history_index = [[1], [2]]\<rparr>,
      \<lparr>label = [[1, 0], [0, 1 :: int]], candidate_length = [2, 1],
       history_length = [1, 1], impression_index = [2, 3],
       candidate_index = [[11, 12], [13, 0]], history_index = [[1], [2]]\<rparr>,
      \<lparr>label = [[1, 0], [0, 1 :: int]], candidate_length = [2, 1],
       history_length = [1, 1], impression_index = [4, 5],
       candidate_index = [[11, 12], [13, 0]], history_index = [[1], [2]]\<rparr>]
     ([], [])
   = Inr ([(0, [(''positives'', 3)]), (1, [(''positives'', 1)]),
           (2, [(''positives'', 3)]), (3, [(''positives'', 1)])],
          [(''impression_index'', [SIndex 0, SIndex 1, SIndex 2, SIndex 3]),
           (''results'', [SResults [(''positives'', 3)], SResults [(''positives'', 1)],
                         SResults [(''positives'', 3)], SResults [(''positives'', 1)]]),
           (''label'', [SLabel [1, 0], SLabel [0], SLabel [1, 0], SLabel [0]]),
           (''candidate_index'', [SIndices [11, 12], SIndices [13], SIndices [11, 12], SIndices [13]]),
           (''history_index'', [SIndices [1], SIndices [2], SIndices [1], SIndices [2]]),
           (''pred_score'', [SPred [4, 3], SPred [1], SPred [4, 3], SPred [1]])])"
  by code_simp

subsection \<open>Merging the weight dump\<close>

lemma extend_with_old_ok:
  "fst ` set wd \<subseteq> fst ` set old \<Longrightarrow>
   extend_with_old wd old = Inr (map (\<lambda>(key, vs). (key, vs @ the (map_of old key))) wd)"
proof (induction wd)
  case Nil
  then show ?case by simp
next
  case (Cons a wd)
  obtain key vs where a: "a = (key, vs)" by (cases a)
  from Cons.prems a have "key \<in> fst ` set old" by simp
  then obtain v where "map_of old key = Some v"
    by (metis domD dom_map_of_conv_image_fst)
  moreover from Cons have "extend_with_old wd old =
      Inr (map (\<lambda>(key, vs). (key, vs @ the (map_of old key))) wd)" by simp
  ultimately show ?case using a by (simp add: dict_get_def)
qed

lemma extend_with_old_keys:
  "extend_with_old wd old = Inr wd' \<Longrightarrow> map fst wd' = map fst wd"
proof (induction wd arbitrary: wd')
  case Nil
  then show ?case by simp
next
  case (Cons a wd)
  obtain key vs where a: "a = (key, vs)" by (cases a)
  from Cons.prems a obtain ov rest' where
    "extend_with_old wd old = Inr rest'" "wd' = (key, vs @ ov) # rest'"
    by (auto simp: and_then_Inr_iff)
  with Cons.IH a show ?case by simp
qed

text \<open>
  Claim C5, as the code has it.  On the primary process with weight export enabled, saving
  dump A when no file exists writes A; saving dump B afterwards, all of whose fields occur
  in A, writes for every field of B the values of B followed by the values of A.
\<close>
theorem saved_dump_new_before_old:
  assumes rw: "config_get (return_weight cfg) False"
    and keys: "fst ` set dump_b \<subseteq> fst ` set dump_a"
  shows "save_weight_dump cfg True dump_a None = Inr (Some dump_a)
       \<and> save_weight_dump cfg True dump_b (Some dump_a)
           = Inr (Some (map (\<lambda>(key, vs). (key, vs @ the (map_of dump_a key))) dump_b))"
  using rw by (simp add: save_weight_dump_def extend_with_old_ok [OF keys])

text \<open>One field, one value in each dump.\<close>
theorem saved_dump_new_before_old_witness:
  "config_get (return_weight \<lparr>valid_method = None, topic_variant = None, return_weight = Some True,
      entropy_constraint = None, saved_weight_num = None\<rparr>) False
   \<and> fst ` set [(''label'', [2 :: int])] \<subseteq> fst ` set [(''label'', [1 :: int])]
   \<and> save_weight_dump \<lparr>valid_method = None, topic_variant = None, return_weight = Some True,
      entropy_constraint = None, saved_weight_num = None\<rparr> True [(''label'', [2 :: int])]
        (Some [(''label'', [1])]) = Inr (Some [(''label'', [2, 1])])"
proof -
  have rw: "config_get (return_weight \<lparr>valid_method = None, topic_variant = None,
      return_weight = Some True, entropy_constraint = None, saved_weight_num = None\<rparr>) False"
    by (simp add: config_get_def)
  have keys: "fst ` set [(''label'', [2 :: int])] \<subseteq> fst ` set [(''label'', [1 :: int])]"
    by simp
  from saved_dump_new_before_old [OF rw keys] rw keys show ?thesis by simp
qed

text \<open>
  Claim C5 fails as stated: after saving \<open>[1]\<close> and then \<open>[2]\<close> under the same field the
  file holds \<open>[2, 1]\<close>, not \<open>[1, 2]\<close>.
\<close>
theorem saved_dump_order_counterexample:
  "save_weight_dump \<lparr>valid_method = None, topic_variant = None, return_weight = Some True,
      entropy_constraint = None, saved_weight_num = None\<rparr> True [(''label'', [1 :: int])] None
     = Inr (Some [(''label'', [1])])
   \<and> save_weight_dump \<lparr>valid_method = None, topic_variant = None, return_weight = Some True,
      entropy_constraint = None, saved_weight_num = None\<rparr> True [(''label'', [2 :: int])]
        (Some [(''label'', [1])])
     = Inr (Some [(''label'', [2, 1])])
   \<and> [2, 1] \<noteq> [1] @ [2 :: int]"
  by (simp add: save_weight_dump_def dict_get_def config_get_def)

text \<open>
  Claim C9.  When a dump file exists and the merge succeeds (every field of the current
  dump occurs in the file), the file is overwritten with exactly the fields of the current
  dump: a field that only the old file had is gone.
\<close>
theorem old_only_fields_dropped:
  assumes rw: "config_get (return_weight cfg) False"
    and keys: "fst ` set weight_dict \<subseteq> fst ` set old_weights"
    and old: "map_of old_weights key = Some vs"
    and absent: "key \<notin> fst ` set weight_dict"
  shows "\<exists>saved. save_weight_dump cfg True weight_dict (Some old_weights) = Inr (Some saved)
           \<and> map fst saved = map fst weight_dict
           \<and> map_of saved key = None"
proof -
  let ?saved = "map (\<lambda>(key, vs). (key, vs @ the (map_of old_weights key))) weight_dict"
  have ext: "extend_with_old weight_dict old_weights = Inr ?saved"
    by (rule extend_with_old_ok [OF keys])
  then have k: "map fst ?saved = map fst weight_dict"
    by (rule extend_with_old_keys)
  then have "fst ` set ?saved = fst ` set weight_dict"
    by (metis list.set_map)
  with absent have "map_of ?saved key = None"
    by (simp only: map_of_eq_None_iff not_False_eq_True)
  with rw ext k show ?thesis by (simp add: save_weight_dump_def)
qed

text \<open>The old file has a field \<^verbatim>\<open>topic_weight\<close> that the current dump lacks.\<close>
theorem old_only_fields_dropped_witness:
  "config_get (return_weight \<lparr>valid_method = None, topic_variant = None, return_weight = Some True,
      entropy_constraint = None, saved_weight_num = None\<rparr>) False
   \<and> fst ` set [(''label'', [2 :: int])] \<subseteq> fst ` set [(''label'', [1 :: int]), (''topic_weight'', [7])]
   \<and> map_of [(''label'', [1 :: int]), (''topic_weight'', [7])] ''topic_weight'' = Some [7]
   \<and> ''topic_weight'' \<notin> fst ` set [(''label'', [2 :: int])]
   \<and> save_weight_dump \<lparr>valid_method = None, topic_variant = None, return_weight = Some True,
      entropy_constraint = None, saved_weight_num = None\<rparr> True [(''label'', [2 :: int])]
        (Some [(''label'', [1]), (''topic_weight'', [7])]) = Inr (Some [(''label'', [2, 1])])"
proof -
  have rw: "config_get (return_weight \<lparr>valid_method = None, topic_variant = None,
      return_weight = Some True, entropy_constraint = None, saved_weight_num = None\<rparr>) False"
    by (simp add: config_get_def)
  have keys: "fst ` set [(''label'', [2 :: int])]
      \<subseteq> fst ` set [(''label'', [1 :: int]), (''topic_weight'', [7])]"
    by simp
  have old: "map_of [(''label'', [1 :: int]), (''topic_weight'', [7])] ''topic_weight'' = Some [7]"
    by simp
  have absent: "''topic_weight'' \<notin> fst ` set [(''label'', [2 :: int])]"
    by simp
  from old_only_fields_dropped [OF rw keys old absent]
  obtain saved where "save_weight_dump \<lparr>valid_method = None, topic_variant = None,
      return_weight = Some True, entropy_constraint = None, saved_weight_num = None\<rparr> True
      [(''label'', [2 :: int])] (Some [(''label'', [1]), (''topic_weight'', [7])]) = Inr (Some saved)"
    by blast
  moreover have "save_weight_dump \<lparr>valid_method = None, topic_variant = None,
      return_weight = Some True, entropy_constraint = None, saved_weight_num = None\<rparr> True
      [(''label'', [2 :: int])] (Some [(''label'', [1]), (''topic_weight'', [7])])
      = Inr (Some [(''label'', [2, 1])])"
    by (simp add: save_weight_dump_def dict_get_def config_get_def)
  ultimately show ?thesis using rw keys old absent by simp
qed

section \<open>Properties of the training epoch loop\<close>

subsection \<open>Evaluating the interval\<close>

lemma bitlen_0: "bitlen 0 = 0"
  by (simp add: bitlen.simps)

lemma bitlen_Suc_0: "bitlen (Suc 0) = 1"
  by (subst bitlen.simps) (simp add: bitlen_0)

lemma bitlen_1: "bitlen 1 = 1"
  by (simp add: bitlen_Suc_0)

lemma bitlen_numeral: "bitlen (numeral n) = Suc (bitlen (numeral n div 2))"
  by (subst bitlen.simps) simp

lemmas bitlen_eval = bitlen_0 bitlen_1 bitlen_Suc_0 bitlen_numeral

text \<open>
  \<^verbatim>\<open>100 * 0.2\<close> is the double \<open>20\<close>: the exact product lies within half a unit in the last
  place of it.  So \<^verbatim>\<open>math.ceil(length * self.valid_interval)\<close> is 20, not 21.
\<close>
lemma float_mul_100_0_2: "float_mul (float_of_int 100) float_0_2 = Double 5629499534213120 (- 48)"
  by (simp add: float_mul_def float_of_int_def float_0_2_def round53_def round_half_even_def
        bitlen_eval Let_def)

lemma ceil_100_times_0_2:
  "math_ceil (float_mul (float_of_int 100) float_0_2) = 20"
  by (simp add: float_mul_100_0_2 math_ceil_def)

text \<open>\<open>float_0_2\<close> has a 53-bit mantissa and is the double nearest to \<open>1/5\<close>.\<close>
lemma float_0_2_value: "double_value float_0_2 = 7205759403792794 / 2 ^ 55"
  by (simp add: double_value_def float_0_2_def)

lemma float_0_2_nearest: "\<bar>double_value float_0_2 - 1 / 5\<bar> < 1 / 2 ^ 56"
  by (simp add: double_value_def float_0_2_def)

lemma interval_indices_100:
  "filter (\<lambda>i. (int i + 1) mod 20 = 0 \<and> i + 1 < 100) [0 ..< 100] = [19, 39, 59, 79]"
  by (simp add: upt_rec)

subsection \<open>Interval validation\<close>

text \<open>
  When no batch raises and the loop is not left early, the validations the loop triggers are
  those at the indices with \<open>(batch_idx + 1) mod k = 0\<close> and \<open>batch_idx + 1 < len\<close>, in order.
\<close>
lemma train_loop_validations:
  assumes k: "math_ceil (float_mul (float_of_int (int len)) (self_valid_interval t)) = k" "k \<noteq> 0"
    and log: "self_log_step t \<noteq> 0"
    and nobreak: "\<forall>i. batch_idx \<le> i \<and> i < batch_idx + length ds \<longrightarrow> int i \<noteq> self_len_epoch t"
    and ok: "\<forall>d \<in> set ds. \<exists>l. batch_loss t d = Inr l"
  shows "\<exists>tr'. train_loop t epoch len batch_idx ds tr = Inr tr'
           \<and> filter is_validation tr' = filter is_validation tr
               @ map (\<lambda>i. Validation epoch (int i) True)
                   (filter (\<lambda>i. (int i + 1) mod k = 0 \<and> i + 1 < len)
                      [batch_idx ..< batch_idx + length ds])"
  using nobreak ok
proof (induction ds arbitrary: batch_idx tr)
  case Nil
  then show ?case by simp
next
  case (Cons d ds)
  from Cons.prems(2) obtain loss where loss: "batch_loss t d = Inr loss" by auto
  from Cons.prems(1) have here: "int batch_idx \<noteq> self_len_epoch t" by simp
  have nb: "\<forall>i. Suc batch_idx \<le> i \<and> i < Suc batch_idx + length ds \<longrightarrow> int i \<noteq> self_len_epoch t"
    using Cons.prems(1) by simp
  have ok': "\<forall>d \<in> set ds. \<exists>l. batch_loss t d = Inr l" using Cons.prems(2) by simp
  let ?tr1 = "tr @ [Backward loss, OptimizerStep,
                    SetStep ((epoch - 1) * self_len_epoch t + int batch_idx), UpdateLoss loss]"
  have "batch_idx < batch_idx + length (d # ds)" by simp
  from upt_conv_Cons [OF this]
  have upt: "[batch_idx ..< batch_idx + length (d # ds)]
      = batch_idx # [Suc batch_idx ..< Suc batch_idx + length ds]"
    by simp
  show ?case
  proof (cases "(int batch_idx + 1) mod k = 0 \<and> batch_idx + 1 < len")
    case True
    from Cons.IH [OF nb ok', of "?tr1 @ [Validation epoch (int batch_idx) True]"]
    obtain tr' where "train_loop t epoch len (Suc batch_idx) ds
          (?tr1 @ [Validation epoch (int batch_idx) True]) = Inr tr'"
      and "filter is_validation tr' =
          filter is_validation (?tr1 @ [Validation epoch (int batch_idx) True])
          @ map (\<lambda>i. Validation epoch (int i) True)
              (filter (\<lambda>i. (int i + 1) mod k = 0 \<and> i + 1 < len)
                 [Suc batch_idx ..< Suc batch_idx + length ds])"
      by blast
    with True loss here k log show ?thesis
      unfolding upt by (simp add: Let_def del: upt_Suc)
  next
    case False
    from Cons.IH [OF nb ok', of ?tr1]
    obtain tr' where "train_loop t epoch len (Suc batch_idx) ds ?tr1 = Inr tr'"
      and "filter is_validation tr' = filter is_validation ?tr1
          @ map (\<lambda>i. Validation epoch (int i) True)
              (filter (\<lambda>i. (int i + 1) mod k = 0 \<and> i + 1 < len)
                 [Suc batch_idx ..< Suc batch_idx + length ds])"
      by blast
    with False loss here k log show ?thesis
      unfolding upt by (auto simp add: Let_def simp del: upt_Suc)
  qed
qed

text \<open>
  Claim C6.  In an epoch of 100 batches with \<^verbatim>\<open>valid_interval = 0.2\<close> (no early stop:
  \<^verbatim>\<open>len_epoch\<close> is at least 100; a non-zero \<^verbatim>\<open>log_step\<close>; every batch yields a loss), the
  epoch returns, and its validations are exactly: \<^verbatim>\<open>_validation(epoch, batch_idx)\<close> with
  monitoring for \<open>batch_idx + 1\<close> = 20, 40, 60, 80, then one \<^verbatim>\<open>_validation(epoch, 100, False)\<close>
  after the loop.  None at the first batch, none at the last one.
\<close>
theorem interval_validation_100:
  assumes len: "length train_loader = 100"
    and interval: "self_valid_interval t = float_0_2"
    and len_epoch: "100 \<le> self_len_epoch t"
    and log: "self_log_step t \<noteq> 0"
    and ok: "\<forall>d \<in> set train_loader. \<exists>l. batch_loss t d = Inr l"
  shows "\<exists>tr. train_epoch t epoch train_loader = Inr tr
           \<and> filter is_validation tr =
               [Validation epoch 19 True, Validation epoch 39 True, Validation epoch 59 True,
                Validation epoch 79 True, Validation epoch 100 False]"
proof -
  have k: "math_ceil (float_mul (float_of_int (int 100)) (self_valid_interval t)) = 20"
    using interval ceil_100_times_0_2 by simp
  have nobreak: "\<forall>i. 0 \<le> i \<and> i < 0 + length train_loader \<longrightarrow> int i \<noteq> self_len_epoch t"
    using len len_epoch by auto
  from train_loop_validations [OF k _ log nobreak ok, of epoch "[]"]
  obtain tr where run: "train_loop t epoch 100 0 train_loader [] = Inr tr"
    and val: "filter is_validation tr = map (\<lambda>i. Validation epoch (int i) True)
        (filter (\<lambda>i. (int i + 1) mod 20 = 0 \<and> i + 1 < 100) [0 ..< 0 + length train_loader])"
    by auto
  have val': "filter is_validation tr =
      [Validation epoch 19 True, Validation epoch 39 True, Validation epoch 59 True,
       Validation epoch 79 True]"
    using val len interval_indices_100 by simp
  show ?thesis
    using run val' len by (simp add: train_epoch_def)
qed

text \<open>An epoch of 100 equal batches, epoch number 3.\<close>
theorem interval_validation_100_witness:
  "length (replicate 100 \<lparr>criterion_value = 1 :: int, model_output = []\<rparr>) = 100
   \<and> self_valid_interval \<lparr>self_valid_interval = float_0_2, self_len_epoch = 100, self_log_step = 10,
        self_entropy_constraint = False, self_alpha = 1 :: int, self_beta = 1,
        self_topic_variant = ''base'', self_lr_scheduler = True\<rparr> = float_0_2
   \<and> (\<exists>tr. train_epoch \<lparr>self_valid_interval = float_0_2, self_len_epoch = 100, self_log_step = 10,
        self_entropy_constraint = False, self_alpha = 1 :: int, self_beta = 1,
        self_topic_variant = ''base'', self_lr_scheduler = True\<rparr> 3
        (replicate 100 \<lparr>criterion_value = 1 :: int, model_output = []\<rparr>) = Inr tr
      \<and> filter is_validation tr =
               [Validation 3 19 True, Validation 3 39 True, Validation 3 59 True,
                Validation 3 79 True, Validation 3 100 False])"
proof -
  let ?t = "\<lparr>self_valid_interval = float_0_2, self_len_epoch = 100, self_log_step = 10,
        self_entropy_constraint = False, self_alpha = 1 :: int, self_beta = 1,
        self_topic_variant = ''base'', self_lr_scheduler = True\<rparr>"
  let ?ds = "replicate 100 \<lparr>criterion_value = 1 :: int, model_output = []\<rparr>"
  have len: "length ?ds = 100" by simp
  have interval: "self_valid_interval ?t = float_0_2" by simp
  have len_epoch: "100 \<le> self_len_epoch ?t" by simp
  have log: "self_log_step ?t \<noteq> 0" by simp
  have ok: "\<forall>d \<in> set ?ds. \<exists>l. batch_loss ?t d = Inr l"
    by (simp add: batch_loss_def)
  from interval_validation_100 [OF len interval len_epoch log ok, of 3] len interval
  show ?thesis by blast
qed

subsection \<open>The loss handed to the backward pass\<close>

lemma train_loop_extends:
  "train_loop t epoch len batch_idx ds tr = Inr tr' \<Longrightarrow> \<exists>ext. tr' = tr @ ext"
proof (induction ds arbitrary: batch_idx tr)
  case Nil
  then show ?case by simp
next
  case (Cons d ds)
  from Cons.prems obtain loss where loss: "batch_loss t d = Inr loss"
    by (auto simp: and_then_Inr_iff)
  let ?tr1 = "tr @ [Backward loss, OptimizerStep,
                    SetStep ((epoch - 1) * self_len_epoch t + int batch_idx), UpdateLoss loss]"
  from Cons.prems loss have
    "tr' = ?tr1 \<or> train_loop t epoch len (Suc batch_idx) ds ?tr1 = Inr tr'
     \<or> train_loop t epoch len (Suc batch_idx) ds (?tr1 @ [Validation epoch (int batch_idx) True]) = Inr tr'"
    by (auto simp: Let_def split: if_splits)
  then show ?case using Cons.IH by (metis append.assoc)
qed

lemma train_loop_backward:
  assumes "train_loop t epoch len batch_idx (d # ds) tr = Inr tr'"
  shows "\<exists>loss. batch_loss t d = Inr loss \<and> Backward loss \<in> set tr'"
proof -
  from assms obtain loss where loss: "batch_loss t d = Inr loss"
    by (auto simp: and_then_Inr_iff)
  let ?tr1 = "tr @ [Backward loss, OptimizerStep,
                    SetStep ((epoch - 1) * self_len_epoch t + int batch_idx), UpdateLoss loss]"
  from assms loss have
    "tr' = ?tr1 \<or> train_loop t epoch len (Suc batch_idx) ds ?tr1 = Inr tr'
     \<or> train_loop t epoch len (Suc batch_idx) ds (?tr1 @ [Validation epoch (int batch_idx) True]) = Inr tr'"
    by (auto simp: Let_def split: if_splits)
  then have "\<exists>ext. tr' = ?tr1 @ ext"
    using train_loop_extends by (metis append.assoc append_Nil2)
  then have "Backward loss \<in> set tr'" by auto
  with loss show ?thesis by blast
qed

text \<open>
  Claim C7, as the code has it.  With \<^verbatim>\<open>topic_variant = "variational_topic"\<close>, a batch that
  the loop gets through has a \<^verbatim>\<open>kl_divergence\<close> output, which is read for the progress-bar
  text only: the loss handed to the backward pass is the criterion value, plus
  \<open>alpha * entropy\<close> when \<^verbatim>\<open>entropy_constraint\<close> is enabled.  No KL term is added.
\<close>
theorem kl_divergence_not_in_loss:
  assumes variant: "self_topic_variant t = ''variational_topic''"
    and run: "train_loop t epoch len batch_idx (d # ds) tr = Inr tr'"
  shows "\<exists>loss kl. batch_loss t d = Inr loss \<and> Backward loss \<in> set tr'
           \<and> map_of (model_output d) ''kl_divergence'' = Some kl
           \<and> (if self_entropy_constraint t
               then \<exists>entropy. map_of (model_output d) ''entropy'' = Some entropy
                      \<and> loss = criterion_value d + self_alpha t * entropy
               else loss = criterion_value d)"
proof -
  from train_loop_backward [OF run] obtain loss
    where loss: "batch_loss t d = Inr loss" and bw: "Backward loss \<in> set tr'"
    by blast
  from loss variant obtain kl where kl: "map_of (model_output d) ''kl_divergence'' = Some kl"
    by (auto simp: batch_loss_def and_then_Inr_iff dict_get_def split: if_splits option.splits)
  from loss have "if self_entropy_constraint t
      then \<exists>entropy. map_of (model_output d) ''entropy'' = Some entropy
             \<and> loss = criterion_value d + self_alpha t * entropy
      else loss = criterion_value d"
    by (auto simp: batch_loss_def and_then_Inr_iff dict_get_def split: if_splits option.splits)
  with loss bw kl show ?thesis by blast
qed

text \<open>One batch with criterion value 1 and KL divergence 2.\<close>
theorem kl_divergence_not_in_loss_witness:
  "self_topic_variant \<lparr>self_valid_interval = float_0_2, self_len_epoch = 100, self_log_step = 10,
        self_entropy_constraint = False, self_alpha = 1 :: real, self_beta = 1,
        self_topic_variant = ''variational_topic'', self_lr_scheduler = True\<rparr> = ''variational_topic''
   \<and> train_loop \<lparr>self_valid_interval = float_0_2, self_len_epoch = 100, self_log_step = 10,
        self_entropy_constraint = False, self_alpha = 1 :: real, self_beta = 1,
        self_topic_variant = ''variational_topic'', self_lr_scheduler = True\<rparr> 1 1 0
        [\<lparr>criterion_value = 1, model_output = [(''kl_divergence'', 2)]\<rparr>] []
       = Inr [Backward 1, OptimizerStep, SetStep 0, UpdateLoss 1]
   \<and> batch_loss \<lparr>self_valid_interval = float_0_2, self_len_epoch = 100, self_log_step = 10,
        self_entropy_constraint = False, self_alpha = 1 :: real, self_beta = 1,
        self_topic_variant = ''variational_topic'', self_lr_scheduler = True\<rparr>
        \<lparr>criterion_value = 1, model_output = [(''kl_divergence'', 2)]\<rparr> = Inr 1"
proof -
  let ?t = "\<lparr>self_valid_interval = float_0_2, self_len_epoch = 100, self_log_step = 10,
        self_entropy_constraint = False, self_alpha = 1 :: real, self_beta = 1,
        self_topic_variant = ''variational_topic'', self_lr_scheduler = True\<rparr>"
  let ?d = "\<lparr>criterion_value = 1 :: real, model_output = [(''kl_divergence'', 2)]\<rparr>"
  have variant: "self_topic_variant ?t = ''variational_topic''" by simp
  have k: "math_ceil (float_mul (float_of_int (int 1)) float_0_2) = 1"
    by (simp add: math_ceil_def float_mul_def float_of_int_def float_0_2_def round53_def
          bitlen_eval Let_def)
  have run: "train_loop ?t 1 1 0 [?d] [] = Inr [Backward 1, OptimizerStep, SetStep 0, UpdateLoss 1]"
    using k by (simp add: batch_loss_def dict_get_def Let_def)
  from kl_divergence_not_in_loss [OF variant run] have "batch_loss ?t ?d = Inr 1"
    by auto
  with variant run show ?thesis by blast
qed

text \<open>
  Claim C7 fails as stated: with criterion value 1, KL divergence 2 and \<open>beta = 1\<close> the loss
  of the backward pass is 1, not \<open>1 + 1 * 2\<close>.
\<close>
theorem kl_divergence_counterexample:
  "batch_loss \<lparr>self_valid_interval = float_0_2, self_len_epoch = 100, self_log_step = 10,
        self_entropy_constraint = False, self_alpha = 1 :: real, self_beta = 1,
        self_topic_variant = ''variational_topic'', self_lr_scheduler = True\<rparr>
        \<lparr>criterion_value = 1, model_output = [(''kl_divergence'', 2)]\<rparr> = Inr 1
   \<and> (1 :: real) \<noteq> 1 + 1 * 2"
  by (simp add: batch_loss_def dict_get_def)

section \<open>Properties of the topic-attention model\<close>

subsection \<open>The user encoder on an unknown variant\<close>

text \<open>
  Claim C10.  For a variant name other than \<^verbatim>\<open>base\<close>, \<^verbatim>\<open>base_att\<close> and \<^verbatim>\<open>bi_batm\<close>,
  \<^verbatim>\<open>user_encoder\<close> returns \<^verbatim>\<open>input_feat["history_news"]\<close> as it is: no recurrent
  encoder, no topic projection and no attention pooling is applied to it.
\<close>
theorem user_encoder_unknown_variant:
  assumes "variant_name m \<notin> {''base'', ''base_att'', ''bi_batm''}"
    and "history_news feat = Some y"
  shows "user_encoder m feat = Inr (Ten3 y)"
  using assms by (simp add: user_encoder_def feat_get_def)

text \<open>The variant \<^verbatim>\<open>variational_topic\<close> and a history of two news vectors.\<close>
theorem user_encoder_unknown_variant_witness:
  "variant_name \<lparr>variant_name = ''variational_topic'', head_num = 2,
      embedding_layer = (\<lambda>tokens. map (map (\<lambda>t. [1])) tokens), dropouts = (\<lambda>t. t),
      topic_layer = (\<lambda>t. t), final = (\<lambda>t. t), user_gru = (\<lambda>t. (t, t)),
      user_topic_layer = (\<lambda>t. t), user_final = (\<lambda>t. t),
      user_att_layer = (\<lambda>t. (concat t, [])), news_att_layer = (\<lambda>t. (concat t, []))\<rparr>
     \<notin> {''base'', ''base_att'', ''bi_batm''}
   \<and> history_news \<lparr>news = None, news_mask = None, history_news = Some [[[1, 2], [3, 4]]]\<rparr>
       = Some [[[1, 2], [3, 4]]]
   \<and> user_encoder \<lparr>variant_name = ''variational_topic'', head_num = 2,
      embedding_layer = (\<lambda>tokens. map (map (\<lambda>t. [1])) tokens), dropouts = (\<lambda>t. t),
      topic_layer = (\<lambda>t. t), final = (\<lambda>t. t), user_gru = (\<lambda>t. (t, t)),
      user_topic_layer = (\<lambda>t. t), user_final = (\<lambda>t. t),
      user_att_layer = (\<lambda>t. (concat t, [])), news_att_layer = (\<lambda>t. (concat t, []))\<rparr>
      \<lparr>news = None, news_mask = None, history_news = Some [[[1, 2], [3, 4]]]\<rparr>
     = Inr (Ten3 [[[1, 2], [3, 4]]])"
proof -
  let ?m = "\<lparr>variant_name = ''variational_topic'', head_num = 2,
      embedding_layer = (\<lambda>tokens. map (map (\<lambda>t. [1])) tokens), dropouts = (\<lambda>t. t),
      topic_layer = (\<lambda>t. t), final = (\<lambda>t. t), user_gru = (\<lambda>t. (t, t)),
      user_topic_layer = (\<lambda>t. t), user_final = (\<lambda>t. t),
      user_att_layer = (\<lambda>t. (concat t, [])), news_att_layer = (\<lambda>t. (concat t, []))\<rparr>"
  let ?feat = "\<lparr>news = None, news_mask = None, history_news = Some [[[1, 2], [3, 4 :: real]]]\<rparr>"
  have v: "variant_name ?m \<notin> {''base'', ''base_att'', ''bi_batm''}" by simp
  have h: "history_news ?feat = Some [[[1, 2], [3, 4]]]" by simp
  from user_encoder_unknown_variant [OF v h] v h show ?thesis by simp
qed

subsection \<open>Softmax over a row\<close>

lemma sum_exp_pos: "xs \<noteq> [] \<Longrightarrow> 0 < sum_list (map exp (xs :: real list))"
proof (induction xs)
  case Nil
  then show ?case by simp
next
  case (Cons a xs)
  have "0 \<le> sum_list (map exp xs)" by (rule sum_list_nonneg) auto
  then show ?case by (simp add: add_pos_nonneg)
qed

lemma length_softmax [simp]: "length (softmax xs) = length xs"
  by (simp add: softmax_def)

lemma softmax_Nil_iff [simp]: "softmax xs = [] \<longleftrightarrow> xs = []"
  by (simp add: softmax_def)

lemma sum_list_softmax:
  assumes "xs \<noteq> []"
  shows "sum_list (softmax xs) = 1"
proof -
  let ?S = "sum_list (map exp xs)"
  have pos: "0 < ?S" by (rule sum_exp_pos [OF assms])
  have "sum_list (softmax xs) = sum_list (map (\<lambda>x. exp x * (1 / ?S)) xs)"
    by (simp add: softmax_def)
  also have "\<dots> = sum_list (map exp xs) * (1 / ?S)"
    by (rule sum_list_mult_const)
  also have "\<dots> = 1" using pos by simp
  finally show ?thesis .
qed

lemma softmax_nth:
  "s < length xs \<Longrightarrow> softmax xs ! s = exp (xs ! s) / sum_list (map exp xs)"
  by (simp add: softmax_def)

lemma softmax_elem_bounds:
  assumes "w \<in> set (softmax xs)"
  shows "0 < w \<and> w \<le> 1"
proof -
  from assms obtain x where x: "x \<in> set xs" and w: "w = exp x / sum_list (map exp xs)"
    by (auto simp: softmax_def)
  from x have ne: "xs \<noteq> []" by auto
  have pos: "0 < sum_list (map exp xs)" by (rule sum_exp_pos [OF ne])
  have "exp x \<in> set (map exp xs)" using x by simp
  moreover have "\<forall>v \<in> set (map exp xs). 0 \<le> v" by auto
  ultimately have "exp x \<le> sum_list (map exp xs)"
    by (metis member_le_sum_list)
  with pos w show ?thesis by simp
qed

lemma softmax_ratio:
  assumes "s < length xs" and "k < length xs"
  shows "softmax xs ! s = exp (xs ! s - xs ! k) * softmax xs ! k"
proof -
  from assms have "xs \<noteq> []" by auto
  then have "0 < sum_list (map exp xs)" by (rule sum_exp_pos)
  then show ?thesis using assms by (simp add: softmax_nth exp_diff)
qed

subsection \<open>Rows of the masked logits\<close>

lemma map_err_nth:
  "map_err f xs = Inr ys \<Longrightarrow>
   length ys = length xs \<and> (\<forall>i < length xs. f (xs ! i) = Inr (ys ! i))"
proof (induction xs arbitrary: ys)
  case Nil
  then show ?case by simp
next
  case (Cons a xs)
  from Cons.prems obtain b bs where b: "f a = Inr b" and bs: "map_err f xs = Inr bs"
    and ys: "ys = b # bs"
    by (auto simp: and_then_Inr_iff)
  from Cons.IH [OF bs] b ys show ?case
    by (auto simp: nth_Cons split: nat.splits)
qed

lemma bzip_aligned: "length ms = length xs \<Longrightarrow> bzip xs ms = Inr (zip xs ms)"
  by (simp add: bzip_def)

lemma masked_fill_row_aligned:
  "length mk = length x \<Longrightarrow>
   masked_fill_row x (map (\<lambda>v. v = 0) mk) c
     = Inr (map (\<lambda>(v, b). if b = (0 :: int) then c else v) (zip x mk))"
  by (simp add: masked_fill_row_def bzip_aligned zip_map2 case_prod_unfold)

lemma masked_fill_mat_aligned:
  assumes fill: "masked_fill_mat t mk c = Inr filled"
    and len: "length mk = length t" and h: "h < length t"
  shows "length filled = length t \<and> masked_fill_row (t ! h) (mk ! h) c = Inr (filled ! h)"
proof -
  from fill len have m: "map_err (\<lambda>(x, r). masked_fill_row x r c) (zip t mk) = Inr filled"
    by (simp add: masked_fill_mat_def bzip_aligned)
  from map_err_nth [OF m] len h show ?thesis by auto
qed

lemma masked_fill_aligned:
  assumes fill: "masked_fill t mk c = Inr filled"
    and len: "length mk = length t" and n: "n < length t"
  shows "length filled = length t \<and> masked_fill_mat (t ! n) (mk ! n) c = Inr (filled ! n)"
proof -
  from fill len have m: "map_err (\<lambda>(x, r). masked_fill_mat x r c) (zip t mk) = Inr filled"
    by (simp add: masked_fill_def bzip_aligned)
  from map_err_nth [OF m] len n show ?thesis by auto
qed

lemma expand_mask_aligned:
  "length nm = n \<Longrightarrow>
   expand_mask h n nm = Inr (map (\<lambda>row. replicate h (map (\<lambda>v. v = 0) row)) nm)"
  by (simp add: expand_mask_def)

text \<open>
  With one mask row per news item, one logit row per head and equal widths, the weight
  row of item \<open>n\<close> and head \<open>h\<close> is the softmax of that item's own logits for that head,
  with \<open>-1e9\<close> at the positions where that item's own mask is 0.
\<close>

lemma extract_topic_row:
  assumes ok: "extract_topic m feat = Inr (topic_vec, topic_weight)"
    and tokens: "news feat = Some tokens" and nm: "news_mask feat = Some nm"
    and items: "length nm = length (dropouts m (embedding_layer m tokens))"
    and logits: "length (topic_logits m tokens) = length nm"
    and n: "n < length nm"
    and heads: "length (topic_logits m tokens ! n) = head_num m" and h: "h < head_num m"
    and width: "length (nm ! n) = length (topic_logits m tokens ! n ! h)"
  shows "length topic_weight = length nm \<and> length (topic_weight ! n) = head_num m
       \<and> topic_weight ! n ! h =
           softmax (map (\<lambda>(v, b). if b = 0 then neg_1e9 else v)
                      (zip (topic_logits m tokens ! n ! h) (nm ! n)))"
proof -
  let ?msk = "map (\<lambda>row. replicate (head_num m) (map (\<lambda>v. v = 0) row)) nm"
  have em: "expand_mask (head_num m) (length (dropouts m (embedding_layer m tokens))) nm = Inr ?msk"
    using items by (simp add: expand_mask_aligned)
  from ok tokens nm em obtain filled3
    where fill: "masked_fill (topic_logits m tokens) ?msk neg_1e9 = Inr filled3"
      and tw: "topic_weight = softmax_last filled3"
    by (auto simp: extract_topic_def feat_get_def and_then_Inr_iff Let_def split: if_splits)
  have len3: "length ?msk = length (topic_logits m tokens)" using logits by simp
  have n': "n < length (topic_logits m tokens)" using n logits by simp
  from masked_fill_aligned [OF fill len3 n']
  have l3: "length filled3 = length (topic_logits m tokens)"
    and mat: "masked_fill_mat (topic_logits m tokens ! n) (?msk ! n) neg_1e9 = Inr (filled3 ! n)"
    by simp_all
  have mskn: "?msk ! n = replicate (head_num m) (map (\<lambda>v. v = 0) (nm ! n))"
    using n by simp
  have len2: "length (?msk ! n) = length (topic_logits m tokens ! n)"
    using mskn heads by simp
  have h': "h < length (topic_logits m tokens ! n)" using h heads by simp
  from masked_fill_mat_aligned [OF mat len2 h']
  have l2: "length (filled3 ! n) = length (topic_logits m tokens ! n)"
    and rowf: "masked_fill_row (topic_logits m tokens ! n ! h) (?msk ! n ! h) neg_1e9
        = Inr (filled3 ! n ! h)"
    by simp_all
  have "?msk ! n ! h = map (\<lambda>v. v = 0) (nm ! n)" using mskn h by simp
  with rowf width have "filled3 ! n ! h =
      map (\<lambda>(v, b). if b = 0 then neg_1e9 else v) (zip (topic_logits m tokens ! n ! h) (nm ! n))"
    by (simp add: masked_fill_row_aligned)
  moreover have "topic_weight ! n ! h = softmax (filled3 ! n ! h)"
    using tw l3 l2 n' h' by (simp add: softmax_last_def)
  moreover have "length topic_weight = length nm" using tw l3 logits by (simp add: softmax_last_def)
  moreover have "length (topic_weight ! n) = head_num m"
    using tw l3 l2 n' heads by (simp add: softmax_last_def)
  ultimately show ?thesis by simp
qed

subsection \<open>Sums over masked and non-masked positions\<close>

lemma sum_list_split:
  fixes f :: "'a \<Rightarrow> real"
  shows "sum_list (map f xs)
       = sum_list (map f (filter P xs)) + sum_list (map f (filter (\<lambda>x. \<not> P x) xs))"
  by (induction xs) simp_all

lemma sum_list_bounded:
  fixes f :: "'a \<Rightarrow> real"
  assumes "\<forall>x \<in> set xs. f x \<le> c"
  shows "sum_list (map f xs) \<le> real (length xs) * c"
  using assms by (induction xs) (auto simp: algebra_simps)

lemma sum_list_nonneg_map:
  fixes f :: "'a \<Rightarrow> real"
  assumes "\<forall>x \<in> set xs. 0 \<le> f x"
  shows "0 \<le> sum_list (map f xs)"
  using assms by (induction xs) auto

lemma count_masked:
  assumes "length row = length mk"
  shows "length (filter (\<lambda>(w, v). v = (0 :: int)) (zip row mk)) = length (filter (\<lambda>v. v = 0) mk)"
proof -
  have "map snd (filter (\<lambda>(w, v). v = 0) (zip row mk)) = filter (\<lambda>v. v = 0) (map snd (zip row mk))"
    by (simp add: filter_map comp_def case_prod_unfold)
  also have "\<dots> = filter (\<lambda>v. v = 0) mk" using assms by simp
  finally show ?thesis by (metis length_map)
qed

lemma masked_row_nth:
  assumes "length mk = length x" and "s < length x"
  shows "map (\<lambda>(v, b). if b = (0 :: int) then c else v) (zip x mk) ! s
       = (if mk ! s = 0 then c else x ! s)"
  using assms by simp

lemma masked_softmax_ratio:
  fixes x :: vec and mk :: "int list"
  defines "row \<equiv> softmax (map (\<lambda>(v, b). if b = 0 then neg_1e9 else v) (zip x mk))"
  assumes len: "length mk = length x"
    and s: "s < length x" and k: "k < length x"
    and ms: "mk ! s = 0" and mk: "mk ! k \<noteq> 0"
  shows "row ! s = exp (neg_1e9 - x ! k) * row ! k \<and> row ! s \<le> exp (neg_1e9 - x ! k)"
proof -
  let ?filled = "map (\<lambda>(v, b). if b = 0 then neg_1e9 else v) (zip x mk)"
  have l: "length ?filled = length x" using len by simp
  have fs: "?filled ! s = neg_1e9" using masked_row_nth [OF len s] ms by simp
  have fk: "?filled ! k = x ! k" using masked_row_nth [OF len k] mk by simp
  from softmax_ratio [of s ?filled k] s k l fs fk
  have eq: "row ! s = exp (neg_1e9 - x ! k) * row ! k"
    unfolding row_def by simp
  have "row ! k \<in> set row" using k l unfolding row_def by simp
  then have "row ! k \<le> 1" using softmax_elem_bounds unfolding row_def by blast
  then have "exp (neg_1e9 - x ! k) * row ! k \<le> exp (neg_1e9 - x ! k) * 1"
    by (intro mult_left_mono) simp_all
  with eq show ?thesis by simp
qed

lemma masked_softmax_mass:
  fixes x :: vec and mk :: "int list"
  defines "row \<equiv> softmax (map (\<lambda>(v, b). if b = 0 then neg_1e9 else v) (zip x mk))"
  assumes len: "length mk = length x" and k: "k < length x" and mk: "mk ! k \<noteq> 0"
  shows "1 - real (length (filter (\<lambda>v. v = 0) mk)) * exp (neg_1e9 - x ! k)
           \<le> sum_list (map fst (filter (\<lambda>(w, v). v \<noteq> 0) (zip row mk)))
       \<and> sum_list (map fst (filter (\<lambda>(w, v). v \<noteq> 0) (zip row mk))) \<le> 1"
proof -
  let ?zs = "zip row mk"
  let ?U = "sum_list (map fst (filter (\<lambda>(w, v). v \<noteq> 0) ?zs))"
  let ?M = "sum_list (map fst (filter (\<lambda>(w, v). v = 0) ?zs))"
  have lr: "length row = length mk" using len unfolding row_def by simp
  have ne: "row \<noteq> []" using k lr len by auto
  have "sum_list row = 1" using ne unfolding row_def by (simp add: sum_list_softmax)
  moreover have "map fst ?zs = row" using lr by simp
  ultimately have total: "sum_list (map fst ?zs) = 1" by simp
  have "sum_list (map fst ?zs)
      = sum_list (map fst (filter (\<lambda>(w, v). v = 0) ?zs))
        + sum_list (map fst (filter (\<lambda>p. \<not> (\<lambda>(w, v). v = 0) p) ?zs))"
    by (rule sum_list_split)
  moreover have "(\<lambda>p :: real \<times> int. \<not> (\<lambda>(w, v). v = 0) p) = (\<lambda>(w, v). v \<noteq> 0)"
    by auto
  ultimately have split: "?M + ?U = 1" using total by simp
  have pos: "\<forall>p \<in> set (filter (\<lambda>(w, v). v = 0) ?zs). 0 \<le> fst p"
  proof
    fix p assume "p \<in> set (filter (\<lambda>(w, v). v = 0) ?zs)"
    then have "fst p \<in> set row" by (auto dest: set_zip_leftD)
    then show "0 \<le> fst p" using softmax_elem_bounds unfolding row_def by fastforce
  qed
  have M0: "0 \<le> ?M" by (rule sum_list_nonneg_map [OF pos])
  have bound: "\<forall>p \<in> set (filter (\<lambda>(w, v). v = 0) ?zs). fst p \<le> exp (neg_1e9 - x ! k)"
  proof
    fix p assume p: "p \<in> set (filter (\<lambda>(w, v). v = 0) ?zs)"
    then obtain s where s: "s < length row" "s < length mk" "p = (row ! s, mk ! s)"
      by (auto simp: in_set_zip)
    with p have ms: "mk ! s = 0" by auto
    from s len have sx: "s < length x" by simp
    have "row ! s \<le> exp (neg_1e9 - x ! k)"
      using masked_softmax_ratio [OF len sx k ms mk] unfolding row_def by blast
    then show "fst p \<le> exp (neg_1e9 - x ! k)" using s by simp
  qed
  have "?M \<le> real (length (filter (\<lambda>(w, v). v = 0) ?zs)) * exp (neg_1e9 - x ! k)"
    by (rule sum_list_bounded [OF bound])
  then have MB: "?M \<le> real (length (filter (\<lambda>v. v = 0) mk)) * exp (neg_1e9 - x ! k)"
    using count_masked [OF lr] by simp
  from split M0 MB show ?thesis by linarith
qed

subsection \<open>Attention weights\<close>

text \<open>
  Claim C8, as the code has it, in exact arithmetic.  Take a batch on which
  \<^verbatim>\<open>extract_topic\<close> returns, with one row of \<^verbatim>\<open>news_mask\<close> per news item, \<open>head_num\<close>
  rows of topic logits per item, and mask rows as wide as the logit rows (the code is the
  same for all variants).  The weight row of item \<open>n\<close> and head \<open>h\<close> is the softmax of that
  item's logits \<open>x\<close> for that head, in which the positions where that item's mask \<open>mk\<close> is 0
  were replaced by the constant \<open>-1e9\<close>.  Hence:
  \<^item> a non-empty row sums to 1 over all its positions, and every weight lies in \<open>(0, 1]\<close>;
  \<^item> a masked position weighs \<open>exp (-1e9 - x\<^sub>k)\<close> times any non-masked position \<open>k\<close> of the
    row, so at most \<open>exp (-1e9 - x\<^sub>k)\<close>;
  \<^item> the non-masked positions sum to at most 1 and to at least 1 minus the number of
    masked positions times \<open>exp (-1e9 - x\<^sub>k)\<close>.

  How small a masked weight is depends on the non-masked logits; nothing is said about a
  row without non-masked positions, nor about the \<^verbatim>\<open>bi_batm\<close> user step.
\<close>
theorem topic_weight_rows:
  assumes ok: "extract_topic m feat = Inr (topic_vec, topic_weight)"
    and tokens: "news feat = Some tokens" and nm: "news_mask feat = Some nm"
    and items: "length nm = length (dropouts m (embedding_layer m tokens))"
    and logits: "length (topic_logits m tokens) = length nm"
    and n: "n < length nm"
    and heads: "length (topic_logits m tokens ! n) = head_num m" and h: "h < head_num m"
    and width: "length (nm ! n) = length (topic_logits m tokens ! n ! h)"
    and x: "x = topic_logits m tokens ! n ! h"
    and mk: "mk = nm ! n"
    and row: "row = topic_weight ! n ! h"
  shows "row = softmax (map (\<lambda>(v, b). if b = 0 then neg_1e9 else v) (zip x mk))
       \<and> length row = length mk
       \<and> (row \<noteq> [] \<longrightarrow> sum_list row = 1)
       \<and> (\<forall>w \<in> set row. 0 < w \<and> w \<le> 1)
       \<and> (\<forall>s < length mk. \<forall>k < length mk. mk ! s = 0 \<and> mk ! k \<noteq> 0 \<longrightarrow>
             row ! s = exp (neg_1e9 - x ! k) * row ! k
           \<and> row ! s \<le> exp (neg_1e9 - x ! k))
       \<and> (\<forall>k < length mk. mk ! k \<noteq> 0 \<longrightarrow>
             1 - real (length (filter (\<lambda>v. v = 0) mk)) * exp (neg_1e9 - x ! k)
               \<le> sum_list (map fst (filter (\<lambda>(w, v). v \<noteq> 0) (zip row mk)))
           \<and> sum_list (map fst (filter (\<lambda>(w, v). v \<noteq> 0) (zip row mk))) \<le> 1)"
proof -
  from extract_topic_row [OF ok tokens nm items logits n heads h width] x mk row
  have r: "row = softmax (map (\<lambda>(v, b). if b = 0 then neg_1e9 else v) (zip x mk))"
    by simp
  have len: "length mk = length x" using width x mk by simp
  have l: "length row = length mk" using r len by simp
  have sum1: "row \<noteq> [] \<longrightarrow> sum_list row = 1"
    unfolding r by (simp add: sum_list_softmax)
  have bounds: "\<forall>w \<in> set row. 0 < w \<and> w \<le> 1"
    unfolding r using softmax_elem_bounds by blast
  have ratio: "\<forall>s < length mk. \<forall>k < length mk. mk ! s = 0 \<and> mk ! k \<noteq> 0 \<longrightarrow>
             row ! s = exp (neg_1e9 - x ! k) * row ! k
           \<and> row ! s \<le> exp (neg_1e9 - x ! k)"
  proof (intro allI impI)
    fix s k
    assume s: "s < length mk" and k: "k < length mk" and c: "mk ! s = 0 \<and> mk ! k \<noteq> 0"
    from s k len have sx: "s < length x" and kx: "k < length x" by simp_all
    from c have c1: "mk ! s = 0" and c2: "mk ! k \<noteq> 0" by simp_all
    from masked_softmax_ratio [OF len sx kx c1 c2]
    show "row ! s = exp (neg_1e9 - x ! k) * row ! k \<and> row ! s \<le> exp (neg_1e9 - x ! k)"
      unfolding r by blast
  qed
  have mass: "\<forall>k < length mk. mk ! k \<noteq> 0 \<longrightarrow>
             1 - real (length (filter (\<lambda>v. v = 0) mk)) * exp (neg_1e9 - x ! k)
               \<le> sum_list (map fst (filter (\<lambda>(w, v). v \<noteq> 0) (zip row mk)))
           \<and> sum_list (map fst (filter (\<lambda>(w, v). v \<noteq> 0) (zip row mk))) \<le> 1"
  proof (intro allI impI)
    fix k
    assume k: "k < length mk" and c: "mk ! k \<noteq> 0"
    from k len have kx: "k < length x" by simp
    from masked_softmax_mass [OF len kx c]
    show "1 - real (length (filter (\<lambda>v. v = 0) mk)) * exp (neg_1e9 - x ! k)
               \<le> sum_list (map fst (filter (\<lambda>(w, v). v \<noteq> 0) (zip row mk)))
           \<and> sum_list (map fst (filter (\<lambda>(w, v). v \<noteq> 0) (zip row mk))) \<le> 1"
      unfolding r by blast
  qed
  from r l sum1 bounds ratio mass show ?thesis by blast
qed

subsection \<open>Concrete models\<close>

text \<open>
  The models below have \<^verbatim>\<open>embedding_dim = 1\<close>, \<^verbatim>\<open>head_num = 2\<close> and \<^verbatim>\<open>head_dim = 1\<close>, so
  \<^verbatim>\<open>topic_dim = 2\<close>: \<^verbatim>\<open>topic_layer\<close> (and the \<^verbatim>\<open>bi_batm\<close> \<^verbatim>\<open>user_encode_layer\<close>) is
  \<^verbatim>\<open>Sequential(Linear(1, 2), Tanh(), Linear(2, 2))\<close>, \<^verbatim>\<open>final\<close> and \<^verbatim>\<open>user_final\<close> are
  \<^verbatim>\<open>Linear(1, 1)\<close>, as \<^verbatim>\<open>__init__\<close> builds them.  The embedding maps every token to \<open>[1]\<close>.
\<close>
lemma replicate_2: "replicate 2 x = [x, x]"
  by (simp add: numeral_2_eq_2)

text \<open>
  Two news items of two tokens with masks \<open>[1, 0]\<close> and \<open>[1, 1]\<close>; the logits are 0 for
  the first head and 3 for the second.  The row of item 0 and head 1 is
  \<open>softmax [3, -1e9]\<close>.
\<close>
theorem topic_weight_rows_witness:
  "(\<exists>topic_vec. extract_topic
      \<lparr>variant_name = ''base'', head_num = 2,
       embedding_layer = (\<lambda>tokens. map (map (\<lambda>t. [1])) tokens), dropouts = (\<lambda>t. t),
       topic_layer = sequential_linear_tanh_linear [[0], [0]] [0, 0] [[0, 0], [0, 0]] [0, 3],
       final = nn_linear [[1]] [0], user_gru = (\<lambda>t. (t, t)),
       user_topic_layer = (\<lambda>t. t), user_final = nn_linear [[1]] [0],
       user_att_layer = (\<lambda>t. (concat t, [])), news_att_layer = (\<lambda>t. (concat t, []))\<rparr>
      \<lparr>news = Some [[5, 6], [7, 8]], news_mask = Some [[1, 0], [1, 1]], history_news = None\<rparr>
      = Inr (topic_vec, [[softmax [0, neg_1e9], softmax [3, neg_1e9]],
                         [softmax [0, 0], softmax [3, 3]]]))
   \<and> topic_logits
      \<lparr>variant_name = ''base'', head_num = 2,
       embedding_layer = (\<lambda>tokens. map (map (\<lambda>t. [1])) tokens), dropouts = (\<lambda>t. t),
       topic_layer = sequential_linear_tanh_linear [[0], [0]] [0, 0] [[0, 0], [0, 0]] [0, 3],
       final = nn_linear [[1]] [0], user_gru = (\<lambda>t. (t, t)),
       user_topic_layer = (\<lambda>t. t), user_final = nn_linear [[1]] [0],
       user_att_layer = (\<lambda>t. (concat t, [])), news_att_layer = (\<lambda>t. (concat t, []))\<rparr>
      [[5, 6], [7, 8]] = [[[0, 0], [3, 3]], [[0, 0], [3, 3]]]
   \<and> sum_list (softmax [3, neg_1e9]) = 1
   \<and> softmax [3, neg_1e9] ! 1 = exp (neg_1e9 - 3) * softmax [3, neg_1e9] ! 0
   \<and> softmax [3, neg_1e9] ! 1 \<le> exp (neg_1e9 - 3)
   \<and> 1 - exp (neg_1e9 - 3) \<le> softmax [3, neg_1e9] ! 0"
proof -
  let ?m = "\<lparr>variant_name = ''base'', head_num = 2,
       embedding_layer = (\<lambda>tokens. map (map (\<lambda>t. [1 :: real])) tokens), dropouts = (\<lambda>t. t),
       topic_layer = sequential_linear_tanh_linear [[0], [0]] [0, 0] [[0, 0], [0, 0]] [0, 3],
       final = nn_linear [[1]] [0], user_gru = (\<lambda>t. (t, t)),
       user_topic_layer = (\<lambda>t. t), user_final = nn_linear [[1]] [0],
       user_att_layer = (\<lambda>t. (concat t, [])), news_att_layer = (\<lambda>t. (concat t, []))\<rparr>"
  let ?feat = "\<lparr>news = Some [[5, 6], [7, 8]], news_mask = Some [[1, 0], [1, 1]],
       history_news = None\<rparr>"
  let ?tw = "[[softmax [0, neg_1e9], softmax [3, neg_1e9]], [softmax [0, 0], softmax [3, 3]]]"
  let ?row = "softmax [3, neg_1e9]"
  have lg: "topic_logits ?m [[5, 6], [7, 8]] = [[[0, 0], [3, 3]], [[0, 0], [3, 3]]]"
    by (simp add: topic_logits_def transpose12_def sequential_linear_tanh_linear_def nn_linear_def)
  have "\<exists>topic_vec. extract_topic ?m ?feat = Inr (topic_vec, ?tw)"
    by (simp add: extract_topic_def lg feat_get_def has_topic_layer_def
          expand_mask_def masked_fill_def masked_fill_mat_def masked_fill_row_def bzip_def
          softmax_last_def matmul_def mat_mul_def Let_def replicate_2)
  then obtain topic_vec where ok: "extract_topic ?m ?feat = Inr (topic_vec, ?tw)"
    by blast
  have tokens: "news ?feat = Some [[5, 6], [7, 8]]" by simp
  have nm: "news_mask ?feat = Some [[1, 0], [1, 1]]" by simp
  have items: "length [[1, 0], [1, 1 :: int]]
      = length (dropouts ?m (embedding_layer ?m [[5, 6], [7, 8]]))" by simp
  have logits: "length (topic_logits ?m [[5, 6], [7, 8]]) = length [[1, 0], [1, 1 :: int]]"
    by (simp add: lg)
  have n: "0 < length [[1, 0], [1, 1 :: int]]" by simp
  have heads: "length (topic_logits ?m [[5, 6], [7, 8]] ! 0) = head_num ?m" by (simp add: lg)
  have h: "1 < head_num ?m" by simp
  have width: "length ([[1, 0], [1, 1 :: int]] ! 0)
      = length (topic_logits ?m [[5, 6], [7, 8]] ! 0 ! 1)" by (simp add: lg)
  have x: "[3, 3] = topic_logits ?m [[5, 6], [7, 8]] ! 0 ! 1" by (simp add: lg)
  have mk: "[1, 0 :: int] = [[1, 0], [1, 1]] ! 0" by simp
  have row: "?row = ?tw ! 0 ! 1" by simp
  note concl = topic_weight_rows [OF ok tokens nm items logits n heads h width x mk row]
  note c3 = concl [THEN conjunct2, THEN conjunct2, THEN conjunct1]
  note c5 = concl [THEN conjunct2, THEN conjunct2, THEN conjunct2, THEN conjunct2, THEN conjunct1]
  note c6 = concl [THEN conjunct2, THEN conjunct2, THEN conjunct2, THEN conjunct2, THEN conjunct2]
  have ne: "?row \<noteq> []" by simp
  have sum1: "sum_list ?row = 1" using c3 ne by (rule mp)
  have e: "[3, 3 :: real] ! 0 = 3" by simp
  have step: "?row ! 1 = exp (neg_1e9 - [3, 3] ! 0) * ?row ! 0
      \<and> ?row ! 1 \<le> exp (neg_1e9 - [3, 3] ! 0)"
    by (rule c5 [rule_format, of 1 0]) simp_all
  have ratio: "?row ! 1 = exp (neg_1e9 - 3) * ?row ! 0 \<and> ?row ! 1 \<le> exp (neg_1e9 - 3)"
    using step unfolding e .
  have "1 - real (length (filter (\<lambda>v. v = 0) [1, 0 :: int])) * exp (neg_1e9 - [3, 3] ! 0)
          \<le> sum_list (map fst (filter (\<lambda>(w, v). v \<noteq> 0) (zip ?row [1, 0 :: int])))
      \<and> sum_list (map fst (filter (\<lambda>(w, v). v \<noteq> 0) (zip ?row [1, 0 :: int]))) \<le> 1"
    by (rule c6 [rule_format, of 0]) simp_all
  then have mass: "1 - exp (neg_1e9 - 3) \<le> ?row ! 0"
    by (simp add: softmax_def)
  from ok lg sum1 ratio mass show ?thesis by blast
qed

text \<open>
  Claim C8 fails as stated, at three places.
  \<^item> In the \<^verbatim>\<open>bi_batm\<close> user step the mask and the softmax are commented out, so
    \<^verbatim>\<open>user_weight\<close> is the raw output of the projection: with zero weights and bias 1 in its
    last layer every row over a history of three news is \<open>[1, 1, 1]\<close>, which sums to 3,
    and the encoder returns 3 times the history vector.
  \<^item> A news item whose mask is 0 everywhere gets the uniform weights \<open>1/2, 1/2\<close> on its
    two masked positions from \<^verbatim>\<open>extract_topic\<close>: nothing is left for non-masked positions,
    and the masked ones are not close to 0.
  \<^item> With the bias \<open>-1e9\<close> in the last layer of \<^verbatim>\<open>topic_layer\<close> the logit of the non-masked
    position equals the fill constant, and the masked position of the mask \<open>[1, 0]\<close>
    weighs \<open>1/2\<close>.
\<close>
theorem attention_weights_counterexample:
  "user_weight
     \<lparr>variant_name = ''bi_batm'', head_num = 2,
      embedding_layer = (\<lambda>tokens. map (map (\<lambda>t. [1])) tokens), dropouts = (\<lambda>t. t),
      topic_layer = sequential_linear_tanh_linear [[0], [0]] [0, 0] [[0, 0], [0, 0]] [0, 0],
      final = nn_linear [[1]] [0], user_gru = (\<lambda>t. (t, t)),
      user_topic_layer = sequential_linear_tanh_linear [[0], [0]] [0, 0] [[0, 0], [0, 0]] [1, 1],
      user_final = nn_linear [[1]] [0],
      user_att_layer = (\<lambda>t. (concat t, [])), news_att_layer = (\<lambda>t. (concat t, []))\<rparr>
     [[[1], [1], [1]]]
   = [[[1, 1, 1], [1, 1, 1]]]
   \<and> sum_list [1, 1, 1 :: real] \<noteq> 1
   \<and> user_encoder
     \<lparr>variant_name = ''bi_batm'', head_num = 2,
      embedding_layer = (\<lambda>tokens. map (map (\<lambda>t. [1])) tokens), dropouts = (\<lambda>t. t),
      topic_layer = sequential_linear_tanh_linear [[0], [0]] [0, 0] [[0, 0], [0, 0]] [0, 0],
      final = nn_linear [[1]] [0], user_gru = (\<lambda>t. (t, t)),
      user_topic_layer = sequential_linear_tanh_linear [[0], [0]] [0, 0] [[0, 0], [0, 0]] [1, 1],
      user_final = nn_linear [[1]] [0],
      user_att_layer = (\<lambda>t. (concat t, [])), news_att_layer = (\<lambda>t. (concat t, []))\<rparr>
     \<lparr>news = None, news_mask = None, history_news = Some [[[1], [1], [1]]]\<rparr>
   = Inr (Mat [[3], [3]])
   \<and> extract_topic
     \<lparr>variant_name = ''bi_batm'', head_num = 2,
      embedding_layer = (\<lambda>tokens. map (map (\<lambda>t. [1])) tokens), dropouts = (\<lambda>t. t),
      topic_layer = sequential_linear_tanh_linear [[0], [0]] [0, 0] [[0, 0], [0, 0]] [0, 0],
      final = nn_linear [[1]] [0], user_gru = (\<lambda>t. (t, t)),
      user_topic_layer = sequential_linear_tanh_linear [[0], [0]] [0, 0] [[0, 0], [0, 0]] [1, 1],
      user_final = nn_linear [[1]] [0],
      user_att_layer = (\<lambda>t. (concat t, [])), news_att_layer = (\<lambda>t. (concat t, []))\<rparr>
     \<lparr>news = Some [[5, 6]], news_mask = Some [[0, 0]], history_news = None\<rparr>
   = Inr ([[[1], [1]]], [[[1 / 2, 1 / 2], [1 / 2, 1 / 2]]])
   \<and> extract_topic
     \<lparr>variant_name = ''base'', head_num = 2,
      embedding_layer = (\<lambda>tokens. map (map (\<lambda>t. [1])) tokens), dropouts = (\<lambda>t. t),
      topic_layer = sequential_linear_tanh_linear [[0], [0]] [0, 0] [[0, 0], [0, 0]]
                      [neg_1e9, neg_1e9],
      final = nn_linear [[1]] [0], user_gru = (\<lambda>t. (t, t)),
      user_topic_layer = (\<lambda>t. t), user_final = nn_linear [[1]] [0],
      user_att_layer = (\<lambda>t. (concat t, [])), news_att_layer = (\<lambda>t. (concat t, []))\<rparr>
     \<lparr>news = Some [[5, 6]], news_mask = Some [[1, 0]], history_news = None\<rparr>
   = Inr ([[[1], [1]]], [[[1 / 2, 1 / 2], [1 / 2, 1 / 2]]])"
proof -
  have half: "exp neg_1e9 / (exp neg_1e9 + exp neg_1e9) = 1 / 2"
    by simp
  have sm: "softmax [neg_1e9, neg_1e9] = [1 / 2, 1 / 2]"
    using half by (simp add: softmax_def)
  show ?thesis
    by (simp add: user_weight_def user_encoder_def extract_topic_def topic_logits_def
          transpose12_def sequential_linear_tanh_linear_def nn_linear_def feat_get_def
          has_topic_layer_def expand_mask_def masked_fill_def masked_fill_mat_def
          masked_fill_row_def bzip_def softmax_last_def matmul_def mat_mul_def sm Let_def
          replicate_2)
qed

end
